theory Spec2Isabelle
  imports Main "HOL-Library.Word"
begin

section \<open>Text as Python sees it\<close>

text \<open>
  Cell text and column labels are Python \<^verbatim>\<open>str\<close> values. They are modelled as
  Isabelle strings, whose characters are the 256 code points of Latin-1, and the
  classification of these code points follows Python: \<^verbatim>\<open>str.isspace\<close> holds for
  the code points 9 to 13, 28 to 32, 133 and 160; \<^verbatim>\<open>str.isdigit\<close> holds for the
  ten decimal digits and for the superscripts two, three and one (178, 179, 185);
  the regular expression class \<^verbatim>\<open>\d\<close> holds for the ten decimal digits only.
\<close>

definition py_isspace :: "char \<Rightarrow> bool" where
  "py_isspace c =
     (let n = (of_char c :: nat)
      in (9 \<le> n \<and> n \<le> 13) \<or> (28 \<le> n \<and> n \<le> 32) \<or> n = 133 \<or> n = 160)"

definition re_digit :: "char \<Rightarrow> bool" where
  "re_digit c = (let n = (of_char c :: nat) in 48 \<le> n \<and> n \<le> 57)"

definition py_isdigit_char :: "char \<Rightarrow> bool" where
  "py_isdigit_char c =
     (let n = (of_char c :: nat) in (48 \<le> n \<and> n \<le> 57) \<or> n = 178 \<or> n = 179 \<or> n = 185)"

text \<open>\<^verbatim>\<open>s.isdigit()\<close>: every character is a digit and there is at least one.\<close>

definition isdigit :: "string \<Rightarrow> bool" where
  "isdigit s = (s \<noteq> [] \<and> list_all py_isdigit_char s)"

text \<open>\<^verbatim>\<open>s.strip()\<close>, \<^verbatim>\<open>s.rstrip(c)\<close>, \<^verbatim>\<open>s.replace(c, '')\<close> and
  \<^verbatim>\<open>s.replace(c, d)\<close> for single characters.\<close>

definition strip :: "string \<Rightarrow> string" where
  "strip s = rev (dropWhile py_isspace (rev (dropWhile py_isspace s)))"

definition rstrip :: "char \<Rightarrow> string \<Rightarrow> string" where
  "rstrip c s = rev (dropWhile (\<lambda>x. x = c) (rev s))"

definition remove_char :: "char \<Rightarrow> string \<Rightarrow> string" where
  "remove_char c s = filter (\<lambda>x. x \<noteq> c) s"

definition replace_char :: "char \<Rightarrow> char \<Rightarrow> string \<Rightarrow> string" where
  "replace_char c d s = map (\<lambda>x. if x = c then d else x) s"

text \<open>\<^verbatim>\<open>s.split(sep)\<close> for a single character: one part more than there are
  separators, so the result is never empty.\<close>

fun py_split :: "char \<Rightarrow> string \<Rightarrow> string list" where
  "py_split sep [] = [[]]"
| "py_split sep (c # cs) =
     (if c = sep then [] # py_split sep cs
      else (case py_split sep cs of
              [] \<Rightarrow> [[c]]
            | p # ps \<Rightarrow> (c # p) # ps))"

text \<open>\<^verbatim>\<open>sep.join(parts)\<close> and the substring test \<^verbatim>\<open>m in s\<close>.\<close>

fun py_join :: "string \<Rightarrow> string list \<Rightarrow> string" where
  "py_join sep [] = []"
| "py_join sep [p] = p"
| "py_join sep (p # q # ps) = p @ sep @ py_join sep (q # ps)"

fun starts_with :: "string \<Rightarrow> string \<Rightarrow> bool" where
  "starts_with [] s = True"
| "starts_with (m # ms) [] = False"
| "starts_with (m # ms) (c # cs) = (m = c \<and> starts_with ms cs)"

fun contains :: "string \<Rightarrow> string \<Rightarrow> bool" where
  "contains m [] = (m = [])"
| "contains m (c # cs) = (starts_with m (c # cs) \<or> contains m cs)"

section \<open>Cells\<close>

text \<open>
  A cell of a data frame of \<^verbatim>\<open>main.py\<close>: the files are read with
  \<^verbatim>\<open>dtype = str\<close>, so a cell is text or the missing value (NaN, and NaT in a
  datetime column: \<^verbatim>\<open>pd.isna\<close> holds for both). The reshaper adds month
  timestamps (the first day of a month) and the consolidator adds integers.
\<close>

datatype cell = NaN | Str string | Stamp nat nat | IntV int

datatype py_error =
  IndexError | ValueError | InvalidIndexError | Exception
  | EmptyDataError | ParserError | Psycopg2Error

fun isna :: "cell \<Rightarrow> bool" where
  "isna NaN = True"
| "isna _ = False"

definition digit_char :: "nat \<Rightarrow> char" where
  "digit_char d = ''0123456789'' ! d"

fun str_nat :: "nat \<Rightarrow> string" where
  "str_nat n = (if n < 10 then [digit_char n] else str_nat (n div 10) @ [digit_char (n mod 10)])"

declare str_nat.simps [simp del]

definition zero_pad :: "nat \<Rightarrow> string \<Rightarrow> string" where
  "zero_pad w s = replicate (w - length s) CHR ''0'' @ s"

text \<open>\<^verbatim>\<open>str(valor)\<close>: the text itself, the decimal numeral of an integer, the
  ISO form of a timestamp.\<close>

fun py_str :: "cell \<Rightarrow> string" where
  "py_str NaN = ''nan''"
| "py_str (Str s) = s"
| "py_str (IntV i) = (if i < 0 then CHR ''-'' # str_nat (nat (- i)) else str_nat (nat i))"
| "py_str (Stamp y m) = zero_pad 4 (str_nat y) @ ''-'' @ zero_pad 2 (str_nat m) @ ''-01 00:00:00''"

section \<open>Decimal trim before the reshape: \<^verbatim>\<open>limpar_celula\<close>\<close>

definition limpar_celula :: "cell \<Rightarrow> cell" where
  "limpar_celula valor =
     (if isna valor then valor
      else
        let valor_str = strip (py_str valor) in
        if CHR ''.'' \<in> set valor_str \<and> isdigit (remove_char CHR ''.'' valor_str) then
          (case py_split CHR ''.'' valor_str of
             [parte_inteira, parte_decimal] \<Rightarrow>
               if remove_char CHR ''0'' parte_decimal = [] then Str parte_inteira
               else
                 let parte_decimal_limpa = rstrip CHR ''0'' parte_decimal in
                 if parte_decimal_limpa \<noteq> [] then Str (parte_inteira @ ''.'' @ parte_decimal_limpa)
                 else Str parte_inteira
           | _ \<Rightarrow> Str valor_str)
        else Str valor_str)"

section \<open>Decimal trim after the consolidation: \<^verbatim>\<open>limpar_valor_final\<close>\<close>

text \<open>\<^verbatim>\<open>partes[1]\<close> raises IndexError on a list with one element; the test
  \<^verbatim>\<open>'.' in valor_str\<close> before it keeps that from happening (lemma
  \<open>limpar_valor_final_returns\<close>).\<close>

definition limpar_valor_final :: "cell \<Rightarrow> py_error + cell" where
  "limpar_valor_final valor =
     (if isna valor \<or> valor = Str [] then Inr (Str [])
      else
        let valor_str = py_str valor in
        if CHR ''.'' \<in> set valor_str then
          (case py_split CHR ''.'' valor_str of
             parte_inteira # p1 # _ \<Rightarrow>
               let parte_decimal = rstrip CHR ''0'' p1 in
               if parte_decimal \<noteq> [] then Inr (Str (parte_inteira @ ''.'' @ parte_decimal))
               else Inr (Str parte_inteira)
           | _ \<Rightarrow> Inl IndexError)
        else Inr (Str valor_str))"

section \<open>Locale-aware coercion after the reshape: \<^verbatim>\<open>converter_para_numero\<close>\<close>

definition valores_invalidos :: "string list" where
  "valores_invalidos = ['''', ''nan'', ''NaN'', ''-'', ''--'', ''---'', ''ND'', ''N/D'']"

text \<open>\<^verbatim>\<open>re.sub(r'[^\d\.,]', '', valor_str)\<close>.\<close>

definition so_numericos :: "string \<Rightarrow> string" where
  "so_numericos s = filter (\<lambda>c. re_digit c \<or> c = CHR ''.'' \<or> c = CHR '','') s"

text \<open>The body of the \<^verbatim>\<open>try\<close> raises nothing: \<^verbatim>\<open>partes_virgula[0]\<close> always
  exists, and the \<^verbatim>\<open>except\<close> branch, which returns \<^verbatim>\<open>valor_str\<close>, is the
  empty-list case below.\<close>

definition converter_para_numero :: "cell \<Rightarrow> cell" where
  "converter_para_numero valor =
     (if isna valor then Str []
      else
        let valor_str = strip (py_str valor) in
        if valor_str \<in> set valores_invalidos then Str []
        else
          let valor_limpo = so_numericos valor_str in
          if valor_limpo = [] then Str []
          else if CHR '','' \<in> set valor_limpo then
            (if CHR ''.'' \<in> set valor_limpo then
               (case py_split CHR '','' valor_limpo of
                  [] \<Rightarrow> Str valor_str
                | p0 # rest \<Rightarrow>
                    let parte_inteira = remove_char CHR ''.'' p0 in
                    (case rest of
                       parte_decimal # _ \<Rightarrow> Str (parte_inteira @ ''.'' @ parte_decimal)
                     | [] \<Rightarrow> Str parte_inteira))
             else Str (replace_char CHR '','' CHR ''.'' valor_limpo))
          else if CHR ''.'' \<in> set valor_limpo then
            (let partes = py_split CHR ''.'' valor_limpo in
             if length partes > 2 then Str (concat partes) else Str valor_limpo)
          else Str valor_limpo)"

section \<open>Data frames of \<^verbatim>\<open>main.py\<close>\<close>

text \<open>
  A pandas data frame: the column labels in order and the rows in order, each row
  holding one cell per column. The row index is the default one (positions from 0),
  which is what \<^verbatim>\<open>header = None\<close>, \<^verbatim>\<open>reset_index(drop = True)\<close> and
  \<^verbatim>\<open>ignore_index = True\<close> give. A label is a cell: text, a number of the default
  header, or NaN where the promoted header row had an empty cell.
\<close>

record frame =
  columns :: "cell list"
  rows :: "cell list list"

text \<open>A row read at a position; frames are rectangular, and a position beyond the
  end of a row reads as the missing value.\<close>

definition celula :: "cell list \<Rightarrow> nat \<Rightarrow> cell" where
  "celula linha i = (if i < length linha then linha ! i else NaN)"

fun posicao :: "cell \<Rightarrow> cell list \<Rightarrow> nat option" where
  "posicao l [] = None"
| "posicao l (c # cs) = (if c = l then Some 0 else map_option Suc (posicao l cs))"

text \<open>The cell of a row under a label, for the labels \<open>cols\<close> of its frame (the
  first column that carries the label).\<close>

definition valor_em :: "cell list \<Rightarrow> cell list \<Rightarrow> cell \<Rightarrow> cell" where
  "valor_em cols linha l = (case posicao l cols of None \<Rightarrow> NaN | Some i \<Rightarrow> celula linha i)"

definition linha_completa :: "cell list \<Rightarrow> cell list \<Rightarrow> cell list" where
  "linha_completa cols linha = map (celula linha) [0..<length cols]"

text \<open>\<^verbatim>\<open>df[l] = v\<close> with a scalar: every column labelled \<open>l\<close> is overwritten, and
  a new last column is added when there is none.\<close>

definition atribuir_constante :: "cell \<Rightarrow> cell \<Rightarrow> frame \<Rightarrow> frame" where
  "atribuir_constante l v df =
     (if l \<in> set (columns df) then
        df\<lparr>rows := map (\<lambda>linha. map (\<lambda>(c, x). if c = l then v else x)
                                 (zip (columns df) (linha_completa (columns df) linha)))
                        (rows df)\<rparr>
      else
        \<lparr>columns = columns df @ [l],
         rows = map (\<lambda>linha. linha_completa (columns df) linha @ [v]) (rows df)\<rparr>)"

text \<open>\<^verbatim>\<open>df[l] = df[l].apply(f)\<close> and \<^verbatim>\<open>df[l] = g(df[l])\<close> for a function that
  works cell by cell.\<close>

definition aplicar_coluna :: "(cell \<Rightarrow> cell) \<Rightarrow> cell \<Rightarrow> frame \<Rightarrow> frame" where
  "aplicar_coluna f l df =
     df\<lparr>rows := map (\<lambda>linha. map (\<lambda>(c, x). if c = l then f x else x)
                              (zip (columns df) (linha_completa (columns df) linha)))
                     (rows df)\<rparr>"

section \<open>Header locator: \<^verbatim>\<open>encontrar_linha_inicio_dados\<close>\<close>

text \<open>
  \<^verbatim>\<open>str.upper\<close> on Latin-1: the letters a to z and the accented letters 224 to 254
  (the division sign 247 apart) move 32 code points down (the bit of value 32, which
  all of them have, is cleared), and the sharp s (223) becomes SS. The upper-case forms
  of the micro sign (181) and of y with diaeresis (255) lie outside Latin-1; they are
  kept here, which changes no test for a marker, since the markers hold neither these
  characters nor their upper-case forms.
\<close>

definition upper_char :: "char \<Rightarrow> string" where
  "upper_char c =
     (let n = (of_char c :: nat)
      in if (97 \<le> n \<and> n \<le> 122) \<or> (224 \<le> n \<and> n \<le> 254 \<and> n \<noteq> 247) then
           (case c of Char b0 b1 b2 b3 b4 b5 b6 b7 \<Rightarrow> [Char b0 b1 b2 b3 b4 False b6 b7])
         else if n = 223 then ''SS''
         else [c])"

definition py_upper :: "string \<Rightarrow> string" where
  "py_upper s = concat (map upper_char s)"

text \<open>The two header markers; the code point 212 is the O with circumflex.\<close>

definition marcador_espacado :: string where
  "marcador_espacado = ''GRUPO ECON'' @ [CHR 0xD4] @ ''MICO''"

definition marcador_sublinhado :: string where
  "marcador_sublinhado = ''GRUPO_ECON''"

definition linha_str :: "cell list \<Rightarrow> string" where
  "linha_str linha = py_join '' '' (map py_str (filter (\<lambda>val. \<not> isna val) linha))"

definition tem_marcador :: "cell list \<Rightarrow> bool" where
  "tem_marcador linha =
     (contains marcador_espacado (py_upper (linha_str linha))
      \<or> contains marcador_sublinhado (py_upper (linha_str linha)))"



section \<open>Date labels: \<^verbatim>\<open>normalizar_colunas_data\<close>\<close>

text \<open>\<^verbatim>\<open>re.match\<close> for a pattern that is a sequence of character classes: the
  pattern has to match at the start of the text, and the text may go on after it.\<close>

fun casa :: "(char \<Rightarrow> bool) list \<Rightarrow> string \<Rightarrow> bool" where
  "casa [] s = True"
| "casa (p # ps) [] = False"
| "casa (p # ps) (c # cs) = (p c \<and> casa ps cs)"

definition lit :: "char \<Rightarrow> char \<Rightarrow> bool" where
  "lit a c = (c = a)"

text \<open>\<^verbatim>\<open>\d{4}-\d{2}\<close> and \<^verbatim>\<open>\d{4}-\d{2}-\d{2} \d{2}:\d{2}:\d{2}\<close>.\<close>

definition padrao_ano_mes :: "(char \<Rightarrow> bool) list" where
  "padrao_ano_mes =
     [re_digit, re_digit, re_digit, re_digit, lit CHR ''-'', re_digit, re_digit]"

definition padrao_timestamp :: "(char \<Rightarrow> bool) list" where
  "padrao_timestamp =
     padrao_ano_mes @ [lit CHR ''-'', re_digit, re_digit, lit CHR '' '', re_digit, re_digit,
                       lit CHR '':'', re_digit, re_digit, lit CHR '':'', re_digit, re_digit]"

definition valor_decimal :: "string \<Rightarrow> nat" where
  "valor_decimal s = foldl (\<lambda>a c. 10 * a + (of_char c - 48)) 0 s"

definition bissexto :: "nat \<Rightarrow> bool" where
  "bissexto ano = (ano mod 4 = 0 \<and> (ano mod 100 \<noteq> 0 \<or> ano mod 400 = 0))"

definition dias_no_mes :: "nat \<Rightarrow> nat \<Rightarrow> nat" where
  "dias_no_mes ano mes =
     (if mes = 2 then (if bissexto ano then 29 else 28)
      else if mes \<in> {4, 6, 9, 11} then 30 else 31)"

text \<open>
  \<^verbatim>\<open>datetime.strptime(coluna_str, '%Y-%m-%d %H:%M:%S')\<close> on a text that begins as the
  timestamp pattern asks: it raises ValueError (None here) when text remains after the
  seconds or when a field is out of range, and gives the date otherwise, of which the
  year and the month are kept.
\<close>

definition strptime_timestamp :: "string \<Rightarrow> (nat \<times> nat) option" where
  "strptime_timestamp s =
     (if casa padrao_timestamp s \<and> length s = 19 then
        (let ano = valor_decimal (take 4 s);
             mes = valor_decimal (take 2 (drop 5 s));
             dia = valor_decimal (take 2 (drop 8 s));
             hora = valor_decimal (take 2 (drop 11 s));
             minuto = valor_decimal (take 2 (drop 14 s));
             segundo = valor_decimal (take 2 (drop 17 s))
         in if 1 \<le> ano \<and> 1 \<le> mes \<and> mes \<le> 12 \<and> 1 \<le> dia \<and> dia \<le> dias_no_mes ano mes
               \<and> hora \<le> 23 \<and> minuto \<le> 59 \<and> segundo \<le> 59
            then Some (ano, mes) else None)
      else None)"

text \<open>\<^verbatim>\<open>data_obj.strftime('%Y-%m')\<close>, the year printed with four digits.\<close>

definition strftime_ano_mes :: "nat \<times> nat \<Rightarrow> string" where
  "strftime_ano_mes d = zero_pad 4 (str_nat (fst d)) @ ''-'' @ zero_pad 2 (str_nat (snd d))"

text \<open>\<^verbatim>\<open>rename(columns = {coluna: nome})\<close>: every column with that label gets the
  new one.\<close>

definition renomear_coluna :: "cell \<Rightarrow> cell \<Rightarrow> cell list \<Rightarrow> cell list" where
  "renomear_coluna coluna nome nomes = map (\<lambda>c. if c = coluna then nome else c) nomes"

text \<open>One turn of the loop: the labels of \<^verbatim>\<open>df_normalizado\<close> after the column
  \<^verbatim>\<open>coluna\<close> of \<^verbatim>\<open>df\<close> has been looked at.\<close>

definition normalizar_passo :: "cell list \<Rightarrow> cell \<Rightarrow> cell list" where
  "normalizar_passo nomes coluna =
     (let coluna_str = py_str coluna in
      if casa padrao_ano_mes coluna_str then nomes
      else if casa padrao_timestamp coluna_str then
        (case strptime_timestamp coluna_str of
           None \<Rightarrow> nomes
         | Some data_obj \<Rightarrow> renomear_coluna coluna (Str (strftime_ano_mes data_obj)) nomes)
      else nomes)"

definition normalizar_colunas_data :: "frame \<Rightarrow> frame" where
  "normalizar_colunas_data df = df\<lparr>columns := foldl normalizar_passo (columns df) (columns df)\<rparr>"

section \<open>Wide to long: \<^verbatim>\<open>transformar_para_formato_longo\<close>\<close>

definition colunas_identificacao :: "string list" where
  "colunas_identificacao = [''GRUPO_ECONOMICO'', ''VARIAVEL'', ''OPERADORA'']"

definition colunas_id :: "frame \<Rightarrow> cell list" where
  "colunas_id df = filter (\<lambda>coluna. py_str coluna \<in> set colunas_identificacao) (columns df)"

definition colunas_data :: "frame \<Rightarrow> cell list" where
  "colunas_data df =
     filter (\<lambda>coluna. py_str coluna \<notin> set colunas_identificacao \<and> casa padrao_ano_mes (py_str coluna))
       (columns df)"

text \<open>
  \<^verbatim>\<open>pd.melt\<close> on a frame with distinct labels: it raises ValueError when
  \<^verbatim>\<open>value_name\<close> is already a column label (pandas 2; pandas 1 gave a warning that
  announced it); otherwise it gives, for each value column in turn and each row in
  turn, the identifier cells of the row, the label of the value column and the cell
  under it.
\<close>

definition pd_melt :: "frame \<Rightarrow> cell list \<Rightarrow> cell list \<Rightarrow> cell \<Rightarrow> cell \<Rightarrow> py_error + frame" where
  "pd_melt df id_vars value_vars var_name value_name =
     (if value_name \<in> set (columns df) then Inl ValueError
      else Inr \<lparr>columns = id_vars @ [var_name, value_name],
                rows = concat (map (\<lambda>v. map (\<lambda>linha. map (valor_em (columns df) linha) id_vars
                                                       @ [v, valor_em (columns df) linha v])
                                            (rows df))
                                   value_vars)\<rparr>)"

text \<open>
  \<^verbatim>\<open>pd.to_datetime(..., format = '%Y-%m', errors = 'coerce')\<close> on one label: a text
  that is exactly four digits, a hyphen and a month from 01 to 12 gives the first day
  of that month, a timestamp stays, anything else gives NaT. The limits of the years
  that a pandas timestamp can hold are not modelled.
\<close>

definition to_datetime_ano_mes :: "cell \<Rightarrow> cell" where
  "to_datetime_ano_mes v =
     (case v of
        Str s \<Rightarrow>
          (if casa padrao_ano_mes s \<and> length s = 7
              \<and> 1 \<le> valor_decimal (take 4 s)
              \<and> 1 \<le> valor_decimal (drop 5 s) \<and> valor_decimal (drop 5 s) \<le> 12
           then Stamp (valor_decimal (take 4 s)) (valor_decimal (drop 5 s)) else NaN)
      | Stamp y m \<Rightarrow> Stamp y m
      | _ \<Rightarrow> NaN)"

definition transformar_para_formato_longo :: "frame \<Rightarrow> string \<Rightarrow> frame" where
  "transformar_para_formato_longo df servico =
     (if colunas_id df = [] \<or> colunas_data df = [] then
        atribuir_constante (Str ''SERVICO'') (Str servico) df
      else
        (case pd_melt df (colunas_id df) (colunas_data df) (Str ''REFERENCIA_MES'') (Str ''VALOR'') of
           Inl e \<Rightarrow> atribuir_constante (Str ''SERVICO'') (Str servico) df
         | Inr df_longo \<Rightarrow>
             aplicar_coluna converter_para_numero (Str ''VALOR'')
               (atribuir_constante (Str ''SERVICO'') (Str servico)
                  (aplicar_coluna to_datetime_ano_mes (Str ''REFERENCIA_MES'') df_longo))))"

section \<open>Consolidation: steps 5 to 8 of \<^verbatim>\<open>criar_dataframe_consolidado\<close>\<close>

text \<open>The elements of a list in order, each kept where it comes first:
  \<^verbatim>\<open>drop_duplicates\<close> on rows, and the union of the labels in \<^verbatim>\<open>pd.concat\<close>.\<close>

fun primeiras :: "'a list \<Rightarrow> 'a list \<Rightarrow> 'a list" where
  "primeiras vistos [] = []"
| "primeiras vistos (x # xs) =
     (if x \<in> set vistos then primeiras vistos xs else x # primeiras (x # vistos) xs)"

definition unicos :: "'a list \<Rightarrow> 'a list" where
  "unicos xs = primeiras [] xs"

text \<open>
  \<^verbatim>\<open>pd.concat(dataframes, ignore_index = True)\<close>: it raises ValueError on an empty
  list; frames with the same labels are stacked as they are; otherwise the columns are
  the union of the labels in order of first appearance, a frame that lacks a column
  gets NaN there, and a frame with a repeated label cannot be reindexed
  (InvalidIndexError).
\<close>

definition pd_concat :: "frame list \<Rightarrow> py_error + frame" where
  "pd_concat dfs =
     (case dfs of
        [] \<Rightarrow> Inl ValueError
      | df0 # _ \<Rightarrow>
          if list_all (\<lambda>df. columns df = columns df0) dfs then
            Inr \<lparr>columns = columns df0,
                 rows = concat (map (\<lambda>df. map (linha_completa (columns df)) (rows df)) dfs)\<rparr>
          else if list_ex (\<lambda>df. \<not> distinct (columns df)) dfs then Inl InvalidIndexError
          else
            (let cols = unicos (concat (map columns dfs)) in
             Inr \<lparr>columns = cols,
                  rows = concat (map (\<lambda>df. map (\<lambda>linha. map (valor_em (columns df) linha) cols) (rows df))
                                     dfs)\<rparr>))"

definition drop_duplicates :: "frame \<Rightarrow> frame" where
  "drop_duplicates df = df\<lparr>rows := unicos (rows df)\<rparr>"

fun mapa_erro :: "('a \<Rightarrow> py_error + 'b) \<Rightarrow> 'a list \<Rightarrow> py_error + 'b list" where
  "mapa_erro f [] = Inr []"
| "mapa_erro f (x # xs) =
     (case f x of
        Inl e \<Rightarrow> Inl e
      | Inr y \<Rightarrow> (case mapa_erro f xs of Inl e \<Rightarrow> Inl e | Inr ys \<Rightarrow> Inr (y # ys)))"

text \<open>Step 6. With two columns labelled VALOR, \<^verbatim>\<open>df['VALOR']\<close> is a frame and
  \<^verbatim>\<open>limpar_valor_final\<close> is handed whole columns, on which its first test raises
  ValueError.\<close>

definition limpeza_final :: "frame \<Rightarrow> py_error + frame" where
  "limpeza_final df =
     (case posicao (Str ''VALOR'') (columns df) of
        None \<Rightarrow> Inr df
      | Some i \<Rightarrow>
          if length (filter (\<lambda>c. c = Str ''VALOR'') (columns df)) > 1 then Inl ValueError
          else
            (case mapa_erro (\<lambda>linha. case limpar_valor_final (celula linha i) of
                                        Inl e \<Rightarrow> Inl e
                                      | Inr v \<Rightarrow> Inr ((linha_completa (columns df) linha)[i := v]))
                    (rows df) of
               Inl e \<Rightarrow> Inl e
             | Inr linhas \<Rightarrow> Inr (df\<lparr>rows := linhas\<rparr>)))"

text \<open>Step 7: the dictionary holds the names that are present, and
  \<^verbatim>\<open>rename\<close> is called when it is not empty.\<close>

definition nomes_finais :: "(cell \<times> cell) list" where
  "nomes_finais =
     [(Str ''GRUPO_ECONOMICO'', Str ''grupo_economico''),
      (Str ''VARIAVEL'', Str ''servico''),
      (Str ''REFERENCIA_MES'', Str ''mes_referencia''),
      (Str ''VALOR'', Str ''valor''),
      (Str ''SERVICO'', Str ''tipo_servico'')]"

definition renomear_colunas :: "frame \<Rightarrow> (cell \<times> cell) list" where
  "renomear_colunas df = filter (\<lambda>(antigo, novo). antigo \<in> set (columns df)) nomes_finais"

definition renomear :: "frame \<Rightarrow> frame" where
  "renomear df =
     (if renomear_colunas df \<noteq> [] then
        df\<lparr>columns := map (\<lambda>c. case map_of (renomear_colunas df) c of None \<Rightarrow> c | Some novo \<Rightarrow> novo)
                           (columns df)\<rparr>
      else df)"

text \<open>Step 8. \<^verbatim>\<open>insert(0, 'id', range(1, len(df) + 1))\<close> raises ValueError when
  there is a column \<^verbatim>\<open>id\<close> already.\<close>

definition inserir_id :: "frame \<Rightarrow> py_error + frame" where
  "inserir_id df =
     (if Str ''id'' \<in> set (columns df) then Inl ValueError
      else Inr \<lparr>columns = Str ''id'' # columns df,
                rows = map (\<lambda>(k, linha). IntV (int k) # linha_completa (columns df) linha)
                           (zip [1..<Suc (length (rows df))] (rows df))\<rparr>)"

definition colunas_desejadas :: "cell list" where
  "colunas_desejadas =
     [Str ''id'', Str ''grupo_economico'', Str ''servico'', Str ''mes_referencia'',
      Str ''valor'', Str ''tipo_servico'']"

text \<open>\<^verbatim>\<open>df[nomes]\<close> with a list of labels: for each label of the list in turn, every
  column that carries it.\<close>

definition posicoes :: "cell \<Rightarrow> cell list \<Rightarrow> nat list" where
  "posicoes l cols = filter (\<lambda>i. cols ! i = l) [0..<length cols]"

definition selecionar :: "frame \<Rightarrow> cell list \<Rightarrow> frame" where
  "selecionar df nomes =
     (let ps = concat (map (\<lambda>l. posicoes l (columns df)) nomes) in
      \<lparr>columns = map (\<lambda>i. columns df ! i) ps,
       rows = map (\<lambda>linha. map (celula linha) ps) (rows df)\<rparr>)"

definition reordenar :: "frame \<Rightarrow> frame" where
  "reordenar df =
     (let colunas_existentes = filter (\<lambda>c. c \<in> set (columns df)) colunas_desejadas;
          colunas_extras = filter (\<lambda>c. c \<notin> set colunas_desejadas) (columns df)
      in selecionar df (colunas_existentes @ colunas_extras))"

text \<open>From the list \<^verbatim>\<open>dataframes\<close> of step 4 to the consolidated frame; an
  exception of any step leaves the function (it is printed and raised again).\<close>

definition criar_dataframe_consolidado :: "frame list \<Rightarrow> py_error + frame" where
  "criar_dataframe_consolidado dataframes =
     (if dataframes = [] then Inl Exception
      else
        (case pd_concat dataframes of
           Inl e \<Rightarrow> Inl e
         | Inr df_concat \<Rightarrow>
             (case limpeza_final (drop_duplicates df_concat) of
                Inl e \<Rightarrow> Inl e
              | Inr df_limpo \<Rightarrow>
                  (case inserir_id (renomear df_limpo) of
                     Inl e \<Rightarrow> Inl e
                   | Inr df_id \<Rightarrow> Inr (reordenar df_id)))))"

section \<open>The loader: \<^verbatim>\<open>connect_postgre.py\<close>\<close>

text \<open>
  The frame that \<^verbatim>\<open>pd.read_csv\<close> gives: text labels, a dtype for each column, and
  cells that are missing, text, integers, floats (their 64 bits, NaN apart: it is the
  missing value), booleans or timestamps (nanoseconds). A cell is the value as
  \<^verbatim>\<open>iterrows\<close> hands it over when the rows are made ready for the insert.
\<close>

datatype dtype = Int64 | Float64 | Bool | Datetime64 | Object

datatype csv_cell = CNull | CText string | CInt int | CFloat "64 word" | CBool bool | CStamp int

record csv_frame =
  col_names :: "string list"
  col_dtypes :: "dtype list"
  records :: "csv_cell list list"

datatype sql_value = SqlNull | SqlText string | SqlInt int | SqlFloat "64 word" | SqlTimestamp int

text \<open>\<^verbatim>\<open>str.lower\<close> on Latin-1: the letters A to Z and the accented capitals 192 to
  222 (the multiplication sign 215 apart) move 32 code points up (the bit of value 32,
  which none of them has, is set).\<close>

definition lower_char :: "char \<Rightarrow> char" where
  "lower_char c =
     (let n = (of_char c :: nat)
      in if (65 \<le> n \<and> n \<le> 90) \<or> (192 \<le> n \<and> n \<le> 222 \<and> n \<noteq> 215) then
           (case c of Char b0 b1 b2 b3 b4 b5 b6 b7 \<Rightarrow> Char b0 b1 b2 b3 b4 True b6 b7)
         else c)"

definition py_lower :: "string \<Rightarrow> string" where
  "py_lower s = map lower_char s"

fun pandas_to_sql_type :: "dtype \<Rightarrow> string" where
  "pandas_to_sql_type Int64 = ''INTEGER''"
| "pandas_to_sql_type Float64 = ''REAL''"
| "pandas_to_sql_type Bool = ''BOOLEAN''"
| "pandas_to_sql_type Datetime64 = ''TIMESTAMP''"
| "pandas_to_sql_type Object = ''TEXT''"

definition type_mapping :: "(string \<times> string) list" where
  "type_mapping =
     [(''id'', ''INTEGER PRIMARY KEY''),
      (''grupo_economico'', ''TEXT''),
      (''servico'', ''TEXT''),
      (''mes_referencia'', ''DATE''),
      (''valor'', ''DOUBLE PRECISION''),
      (''tipo_servico'', ''TEXT'')]"

definition get_column_type_for_your_table :: "string \<Rightarrow> dtype \<Rightarrow> string" where
  "get_column_type_for_your_table column_name dt =
     (let clean_col = replace_char CHR '' '' CHR ''_'' (py_lower (strip column_name)) in
      case map_of type_mapping clean_col of
        Some t \<Rightarrow> t
      | None \<Rightarrow> pandas_to_sql_type dt)"

text \<open>A function on the cells of the columns with a given name.\<close>

definition map_column :: "(csv_cell \<Rightarrow> csv_cell) \<Rightarrow> string \<Rightarrow> csv_frame \<Rightarrow> csv_frame" where
  "map_column f name df =
     df\<lparr>records := map (\<lambda>row. map (\<lambda>(c, x). if c = name then f x else x) (zip (col_names df) row))
                        (records df)\<rparr>"

definition normalize_name :: "string \<Rightarrow> string" where
  "normalize_name col =
     py_lower (replace_char CHR ''.'' CHR ''_''
                 (replace_char CHR ''-'' CHR ''_'' (replace_char CHR '' '' CHR ''_'' col)))"

text \<open>
  \<^verbatim>\<open>preprocess_dataframe\<close>. The general parser \<^verbatim>\<open>pd.to_datetime(..., errors =
  'coerce')\<close> is a parameter, \<open>to_datetime\<close>, cell by cell. \<^verbatim>\<open>replace('', None)\<close> puts
  the missing value where the empty text was.
\<close>

definition preprocess_dataframe :: "(csv_cell \<Rightarrow> csv_cell) \<Rightarrow> csv_frame \<Rightarrow> csv_frame" where
  "preprocess_dataframe to_datetime df =
     (let df1 = (if ''referencia_mes'' \<in> set (col_names df) then
                   (map_column to_datetime ''referencia_mes'' df)
                     \<lparr>col_dtypes := map (\<lambda>(c, d). if c = ''referencia_mes'' then Datetime64 else d)
                                         (zip (col_names df) (col_dtypes df))\<rparr>
                 else df);
          df2 = (if ''valor'' \<in> set (col_names df1) then
                   map_column (\<lambda>x. if x = CText [] then CNull else x) ''valor'' df1
                 else df1)
      in df2\<lparr>col_names := map normalize_name (col_names df2)\<rparr>)"

text \<open>Step 4 of \<^verbatim>\<open>create_table_from_csv\<close>: one value of a row made ready for the
  insert. A boolean is neither an integer nor a float, so it goes through
  \<^verbatim>\<open>str\<close>.\<close>

fun to_sql_value :: "csv_cell \<Rightarrow> sql_value" where
  "to_sql_value CNull = SqlNull"
| "to_sql_value (CStamp t) = SqlTimestamp t"
| "to_sql_value (CInt i) = SqlInt i"
| "to_sql_value (CFloat x) = SqlFloat x"
| "to_sql_value (CText s) = SqlText s"
| "to_sql_value (CBool b) = SqlText (if b then ''True'' else ''False'')"

definition data_tuples :: "csv_frame \<Rightarrow> sql_value list list" where
  "data_tuples df = map (map to_sql_value) (records df)"

text \<open>
  The database server. A table has its column definitions and its rows; a database
  maps table names to tables. What the server accepts is a parameter: which column
  definitions \<^verbatim>\<open>CREATE TABLE\<close> takes, and which row an \<^verbatim>\<open>INSERT\<close> into a table
  takes (types, primary key). A refusal is a \<^verbatim>\<open>psycopg2.Error\<close>.

  A psycopg2 connection is not in autocommit mode unless it is put there (as
  \<^verbatim>\<open>create_database\<close> does for its own connection): the first statement opens a
  transaction, and in PostgreSQL \<^verbatim>\<open>DROP TABLE\<close> and \<^verbatim>\<open>CREATE TABLE\<close> belong to
  the transaction like any other statement. So a connection holds the committed
  database and the one its open transaction works on; \<^verbatim>\<open>commit\<close> makes the second
  the first, \<^verbatim>\<open>rollback\<close> the first the second.
\<close>

record sql_table =
  tcols :: "(string \<times> string) list"
  trows :: "sql_value list list"

type_synonym database = "string \<Rightarrow> sql_table option"

record server =
  accepts_create :: "(string \<times> string) list \<Rightarrow> bool"
  accepts_row :: "sql_table \<Rightarrow> sql_value list \<Rightarrow> bool"

record connection =
  committed :: database
  working :: database

definition commit :: "connection \<Rightarrow> connection" where
  "commit conn = conn\<lparr>committed := working conn\<rparr>"

definition rollback :: "connection \<Rightarrow> connection" where
  "rollback conn = conn\<lparr>working := committed conn\<rparr>"

definition execute_drop :: "string \<Rightarrow> connection \<Rightarrow> connection" where
  "execute_drop table_name conn = conn\<lparr>working := (working conn)(table_name := None)\<rparr>"

text \<open>The statements that can be refused give False and the connection as the
  refusal left it.\<close>

definition execute_create ::
  "server \<Rightarrow> string \<Rightarrow> (string \<times> string) list \<Rightarrow> connection \<Rightarrow> bool \<times> connection" where
  "execute_create srv table_name columns_def conn =
     (if accepts_create srv columns_def \<and> working conn table_name = None then
        (True, conn\<lparr>working := (working conn)(table_name \<mapsto> \<lparr>tcols = columns_def, trows = []\<rparr>)\<rparr>)
      else (False, conn))"

fun executemany ::
  "server \<Rightarrow> string \<Rightarrow> sql_value list list \<Rightarrow> connection \<Rightarrow> bool \<times> connection" where
  "executemany srv table_name [] conn = (True, conn)"
| "executemany srv table_name (t # ts) conn =
     (case working conn table_name of
        None \<Rightarrow> (False, conn)
      | Some tab \<Rightarrow>
          if accepts_row srv tab t then
            executemany srv table_name ts
              (conn\<lparr>working := (working conn)(table_name \<mapsto> tab\<lparr>trows := trows tab @ [t]\<rparr>)\<rparr>)
          else (False, conn))"

text \<open>
  \<^verbatim>\<open>create_table_from_csv\<close>: whether the connection could be made and what
  \<^verbatim>\<open>pd.read_csv\<close> gave are inputs; the result is the value returned and the
  database as the server holds it afterwards. The two errors of \<^verbatim>\<open>read_csv\<close> that
  have a handler of their own return False at once; any other exception reaches a
  handler that rolls back. When two names have become equal in
  \<^verbatim>\<open>preprocess_dataframe\<close>, \<^verbatim>\<open>df[col]\<close> is a frame and has no \<^verbatim>\<open>dtype\<close>:
  an exception of that kind, before any statement is sent.
\<close>

definition create_table_from_csv ::
  "server \<Rightarrow> (csv_cell \<Rightarrow> csv_cell) \<Rightarrow> bool \<Rightarrow> py_error + csv_frame \<Rightarrow> string \<Rightarrow> database
     \<Rightarrow> bool \<times> database" where
  "create_table_from_csv srv to_datetime connected csv table_name db =
     (if \<not> connected then (False, db)
      else
        (let conn = \<lparr>committed = db, working = db\<rparr> in
         case csv of
           Inl EmptyDataError \<Rightarrow> (False, committed conn)
         | Inl ParserError \<Rightarrow> (False, committed conn)
         | Inl _ \<Rightarrow> (False, committed (rollback conn))
         | Inr df0 \<Rightarrow>
             (let df = preprocess_dataframe to_datetime df0 in
              if \<not> distinct (col_names df) then (False, committed (rollback conn))
              else
                (let columns_def = map (\<lambda>(col, dt). (col, get_column_type_for_your_table col dt))
                                       (zip (col_names df) (col_dtypes df));
                     conn1 = execute_drop table_name conn
                 in case execute_create srv table_name columns_def conn1 of
                      (False, conn2) \<Rightarrow> (False, committed (rollback conn2))
                    | (True, conn2) \<Rightarrow>
                        (case executemany srv table_name (data_tuples df) conn2 of
                           (False, conn3) \<Rightarrow> (False, committed (rollback conn3))
                         | (True, conn3) \<Rightarrow> (True, committed (commit conn3)))))))"

text \<open>A server for the examples: it takes any column definitions with distinct
  names, and a row of the right length whose primary key columns hold integers not in
  the table yet.\<close>

definition pk_positions :: "sql_table \<Rightarrow> nat list" where
  "pk_positions tab =
     filter (\<lambda>i. snd (tcols tab ! i) = ''INTEGER PRIMARY KEY'') [0..<length (tcols tab)]"

fun is_sql_int :: "sql_value \<Rightarrow> bool" where
  "is_sql_int (SqlInt i) = True"
| "is_sql_int _ = False"

definition pk_server :: server where
  "pk_server =
     \<lparr>accepts_create = (\<lambda>cols. distinct (map fst cols)),
      accepts_row = (\<lambda>tab row. length row = length (tcols tab)
                        \<and> list_all (\<lambda>i. is_sql_int (row ! i) \<and> row ! i \<notin> set (map (\<lambda>r. r ! i) (trows tab)))
                             (pk_positions tab))\<rparr>"


section \<open>The rows of the long format\<close>

text \<open>
  The observation row that the reshaper makes of one row and one period column: the
  identifier cells of the row, the month parsed from the label of the period column, the
  coerced value of the cell under that column, and the service.
\<close>

definition linha_longa :: "frame \<Rightarrow> string \<Rightarrow> cell \<Rightarrow> cell list \<Rightarrow> cell list" where
  "linha_longa df servico coluna linha =
     map (valor_em (columns df) linha) (colunas_id df)
       @ [to_datetime_ano_mes coluna, converter_para_numero (valor_em (columns df) linha coluna),
          Str servico]"

section \<open>Example inputs\<close>



text \<open>Data regions: one whose period column carries a full timestamp, a regular one,
  one without period columns, and one with a column that is already called VALOR.\<close>

definition exemplo_timestamp :: frame where
  "exemplo_timestamp =
     \<lparr>columns = [Str ''GRUPO_ECONOMICO'', Str ''VARIAVEL'', Str ''2013-01-01 00:00:00''],
      rows = [[Str ''OI'', Str ''Taxa'', Str ''95,5'']]\<rparr>"

definition exemplo_scm :: frame where
  "exemplo_scm =
     \<lparr>columns = [Str ''GRUPO_ECONOMICO'', Str ''VARIAVEL'', Str ''2020-01'', Str ''2020-02''],
      rows = [[Str ''OI'', Str ''Taxa'', Str ''1,50'', Str ''2''],
              [Str ''OI'', Str ''Taxa'', Str ''1,50'', Str ''2'']]\<rparr>"

definition exemplo_smp :: frame where
  "exemplo_smp =
     \<lparr>columns = [Str ''GRUPO_ECONOMICO'', Str ''VARIAVEL'', Str ''TOTAL''],
      rows = [[Str ''TIM'', Str ''Taxa'', Str ''7'']]\<rparr>"


text \<open>The frames of two resources, one reshaped and one left wide, and what the
  consolidation makes of them: after the concatenation, after the final cleaning, and
  at the end.\<close>

definition exemplo_dataframes :: "frame list" where
  "exemplo_dataframes =
     [transformar_para_formato_longo exemplo_scm ''SCM'',
      transformar_para_formato_longo exemplo_smp ''SMP'']"

definition exemplo_concat :: frame where
  "exemplo_concat =
     \<lparr>columns = [Str ''GRUPO_ECONOMICO'', Str ''VARIAVEL'', Str ''REFERENCIA_MES'', Str ''VALOR'',
                 Str ''SERVICO'', Str ''TOTAL''],
      rows = [[Str ''OI'', Str ''Taxa'', Stamp 2020 1, Str ''1.50'', Str ''SCM'', NaN],
              [Str ''OI'', Str ''Taxa'', Stamp 2020 1, Str ''1.50'', Str ''SCM'', NaN],
              [Str ''OI'', Str ''Taxa'', Stamp 2020 2, Str ''2'', Str ''SCM'', NaN],
              [Str ''OI'', Str ''Taxa'', Stamp 2020 2, Str ''2'', Str ''SCM'', NaN],
              [Str ''TIM'', Str ''Taxa'', NaN, NaN, Str ''SMP'', Str ''7'']]\<rparr>"

definition exemplo_limpo :: frame where
  "exemplo_limpo =
     \<lparr>columns = [Str ''GRUPO_ECONOMICO'', Str ''VARIAVEL'', Str ''REFERENCIA_MES'', Str ''VALOR'',
                 Str ''SERVICO'', Str ''TOTAL''],
      rows = [[Str ''OI'', Str ''Taxa'', Stamp 2020 1, Str ''1.5'', Str ''SCM'', NaN],
              [Str ''OI'', Str ''Taxa'', Stamp 2020 2, Str ''2'', Str ''SCM'', NaN],
              [Str ''TIM'', Str ''Taxa'', NaN, Str [], Str ''SMP'', Str ''7'']]\<rparr>"

definition exemplo_final :: frame where
  "exemplo_final =
     \<lparr>columns = [Str ''id'', Str ''grupo_economico'', Str ''servico'', Str ''mes_referencia'',
                 Str ''valor'', Str ''tipo_servico'', Str ''TOTAL''],
      rows = [[IntV 1, Str ''OI'', Str ''Taxa'', Stamp 2020 1, Str ''1.5'', Str ''SCM'', NaN],
              [IntV 2, Str ''OI'', Str ''Taxa'', Stamp 2020 2, Str ''2'', Str ''SCM'', NaN],
              [IntV 3, Str ''TIM'', Str ''Taxa'', NaN, Str [], Str ''SMP'', Str ''7'']]\<rparr>"

text \<open>Two files for the loader: the second repeats an id, so its second row breaks
  the primary key.\<close>

definition exemplo_csv :: csv_frame where
  "exemplo_csv =
     \<lparr>col_names = [''id'', ''valor''], col_dtypes = [Int64, Object],
      records = [[CInt 1, CText []], [CInt 2, CText ''2.5'']]\<rparr>"



section \<open>The normalisations as the specification words them\<close>

text \<open>
  The decimal trim in the specification's words: strip the trailing zero digits from
  the fraction, and drop the decimal point when the fraction becomes empty.
\<close>

definition spec_decimal_trim :: "string \<Rightarrow> string \<Rightarrow> string" where
  "spec_decimal_trim inteiro fracao =
     (let f = rstrip CHR ''0'' fracao in if f = [] then inteiro else inteiro @ ''.'' @ f)"

text \<open>
  The comma rule in the specification's words: the periods left of the last comma are
  thousands separators and are removed, and that comma becomes the decimal point.
\<close>

definition spec_virgula_decimal :: "string \<Rightarrow> string" where
  "spec_virgula_decimal c =
     (let direita = rev (takeWhile (\<lambda>x. x \<noteq> CHR '','') (rev c));
          esquerda = take (length c - length direita - 1) c
      in remove_char CHR ''.'' esquerda @ ''.'' @ direita)"


section \<open>Facts about the text operations\<close>

lemma py_split_not_Nil: "py_split c s \<noteq> []"
  by (induction s) (auto split: list.splits)

lemma py_split_no_sep: "c \<notin> set s \<Longrightarrow> py_split c s = [s]"
  by (induction s) auto

lemma py_split_first: "c \<notin> set a \<Longrightarrow> py_split c (a @ c # r) = a # py_split c r"
  by (induction a) (auto split: list.splits simp: py_split_not_Nil)

lemma length_py_split: "length (py_split c s) = Suc (length (filter (\<lambda>x. x = c) s))"
  by (induction s) (auto split: list.splits simp: py_split_not_Nil)


lemma py_split_two:
  "c \<notin> set a \<Longrightarrow> c \<notin> set b \<Longrightarrow> py_split c (a @ c # b) = [a, b]"
  by (simp add: py_split_first py_split_no_sep)

lemma py_split_one_iff: "py_split c s = [p] \<longleftrightarrow> s = p \<and> c \<notin> set s"
proof
  assume h: "py_split c s = [p]"
  have "filter (\<lambda>x. x = c) s = []"
    using length_py_split [of c s] h by simp
  then have "c \<notin> set s" by (auto simp: filter_empty_conv)
  with h show "s = p \<and> c \<notin> set s" by (simp add: py_split_no_sep)
next
  assume "s = p \<and> c \<notin> set s"
  then show "py_split c s = [p]" by (auto simp: py_split_no_sep)
qed

lemma py_split_two_iff:
  "py_split c s = [a, b] \<longleftrightarrow> s = a @ c # b \<and> c \<notin> set a \<and> c \<notin> set b"
proof
  assume h: "py_split c s = [a, b]"
  have "c \<in> set s"
  proof (rule ccontr)
    assume "c \<notin> set s"
    then have "py_split c s = [s]" by (rule py_split_no_sep)
    with h show False by simp
  qed
  then obtain p r where s: "s = p @ c # r" and p: "c \<notin> set p"
    using split_list_first [of c s] by blast
  have "py_split c s = p # py_split c r"
    using s p by (simp add: py_split_first)
  with h have pa: "p = a" and rb: "py_split c r = [b]" by simp_all
  from rb have "r = b" and "c \<notin> set b" by (auto simp: py_split_one_iff)
  with s p pa show "s = a @ c # b \<and> c \<notin> set a \<and> c \<notin> set b" by auto
next
  assume "s = a @ c # b \<and> c \<notin> set a \<and> c \<notin> set b"
  then show "py_split c s = [a, b]" by (simp add: py_split_two)
qed

lemma py_split_sep:
  assumes "c \<in> set s"
  shows "\<exists>a b r. py_split c s = a # b # r \<and> c \<notin> set a \<and> c \<notin> set b"
proof -
  obtain p q where s: "s = p @ c # q" and p: "c \<notin> set p"
    using assms split_list_first [of c s] by blast
  have 1: "py_split c s = p # py_split c q" using s p by (simp add: py_split_first)
  show ?thesis
  proof (cases "c \<in> set q")
    case False
    then show ?thesis using 1 p by (simp add: py_split_no_sep)
  next
    case True
    then obtain p' q' where q: "q = p' @ c # q'" and p': "c \<notin> set p'"
      using split_list_first [of c q] by blast
    then have 2: "py_split c q = p' # py_split c q'" by (simp add: py_split_first)
    obtain x xs where "py_split c q' = x # xs"
      using py_split_not_Nil [of c q'] by (cases "py_split c q'") auto
    then show ?thesis using 1 2 p p' by simp
  qed
qed

lemma rstrip_idem: "rstrip c (rstrip c s) = rstrip c s"
  by (simp add: rstrip_def dropWhile_idem)

lemma set_rstrip: "x \<in> set (rstrip c s) \<Longrightarrow> x \<in> set s"
  unfolding rstrip_def using set_dropWhileD [of x "\<lambda>x. x = c" "rev s"] by simp

lemma rstrip_Nil_iff: "rstrip c s = [] \<longleftrightarrow> remove_char c s = []"
  by (auto simp: rstrip_def remove_char_def dropWhile_eq_Nil_conv filter_empty_conv)

lemma filter_dropWhile_neq:
  "filter (\<lambda>x. x \<noteq> c) (dropWhile (\<lambda>x. x = c) xs) = filter (\<lambda>x. x \<noteq> c) xs"
  by (induction xs) auto

lemma remove_rstrip: "remove_char c (rstrip c s) = remove_char c s"
proof -
  have "filter (\<lambda>x. x \<noteq> c) (rev (dropWhile (\<lambda>x. x = c) (rev s)))
        = rev (filter (\<lambda>x. x \<noteq> c) (dropWhile (\<lambda>x. x = c) (rev s)))"
    by (simp add: rev_filter)
  also have "\<dots> = rev (filter (\<lambda>x. x \<noteq> c) (rev s))"
    by (simp only: filter_dropWhile_neq)
  also have "\<dots> = filter (\<lambda>x. x \<noteq> c) s"
    by (simp add: rev_filter)
  finally show ?thesis by (simp add: rstrip_def remove_char_def)
qed

lemma dropWhile_id: "xs = [] \<or> \<not> P (hd xs) \<Longrightarrow> dropWhile P xs = xs"
  by (cases xs) auto

lemma strip_id: "\<forall>c \<in> set s. \<not> py_isspace c \<Longrightarrow> strip s = s"
proof -
  assume h: "\<forall>c \<in> set s. \<not> py_isspace c"
  have a: "dropWhile py_isspace xs = xs" if "\<forall>c \<in> set xs. \<not> py_isspace c" for xs
    using that by (cases xs) auto
  show ?thesis using h by (simp add: strip_def a)
qed

lemma strip_idem: "strip (strip s) = strip s"
proof -
  let ?d = "dropWhile py_isspace"
  define u where "u = ?d s"
  define v where "v = ?d (rev u)"
  have u: "u = [] \<or> \<not> py_isspace (hd u)" unfolding u_def using hd_dropWhile by blast
  have v: "v = [] \<or> \<not> py_isspace (hd v)" unfolding v_def using hd_dropWhile by blast
  have rv: "rev v = [] \<or> \<not> py_isspace (hd (rev v))"
  proof (cases "v = []")
    case True then show ?thesis by simp
  next
    case False
    have "rev u = takeWhile py_isspace (rev u) @ v"
      unfolding v_def by simp
    then have "rev (rev u) = rev (takeWhile py_isspace (rev u) @ v)" by simp
    then have eq: "u = rev v @ rev (takeWhile py_isspace (rev u))" by simp
    have "hd (rev v @ rev (takeWhile py_isspace (rev u))) = hd (rev v)"
      using False by simp
    with eq have "hd u = hd (rev v)" by simp
    moreover have "u \<noteq> []" using eq False by auto
    ultimately show ?thesis using u by simp
  qed
  have s: "strip s = rev v" by (simp add: strip_def u_def v_def)
  have "?d (rev v) = rev v" using rv by (rule dropWhile_id)
  moreover have "?d (rev (rev v)) = v" using v by (simp add: dropWhile_id)
  ultimately have "strip (rev v) = rev v" by (simp add: strip_def)
  with s show ?thesis by simp
qed

section \<open>The two decimal trims\<close>

lemma digit_not_space: "py_isdigit_char c \<Longrightarrow> \<not> py_isspace c"
  by (auto simp: py_isdigit_char_def py_isspace_def Let_def)

lemma digit_not_dot: "py_isdigit_char c \<Longrightarrow> c \<noteq> CHR ''.''"
  by (auto simp: py_isdigit_char_def Let_def)

lemma dot_not_space: "\<not> py_isspace CHR ''.''"
  by (simp add: py_isspace_def)

lemma digits_no_dot: "list_all py_isdigit_char a \<Longrightarrow> CHR ''.'' \<notin> set a"
  using digit_not_dot by (auto simp: list_all_iff)

lemma digits_strip: "list_all py_isdigit_char a \<Longrightarrow> strip a = a"
  by (rule strip_id) (auto simp: list_all_iff digit_not_space)

lemma decimal_strip:
  "list_all py_isdigit_char a \<Longrightarrow> list_all py_isdigit_char b \<Longrightarrow> strip (a @ ''.'' @ b) = a @ ''.'' @ b"
  by (rule strip_id) (auto simp: list_all_iff digit_not_space dot_not_space)

lemma digits_rstrip: "list_all py_isdigit_char b \<Longrightarrow> list_all py_isdigit_char (rstrip c b)"
  using set_rstrip [of _ c b] by (auto simp: list_all_iff)

lemma remove_no_occurrence: "c \<notin> set s \<Longrightarrow> remove_char c s = s"
  by (induction s) (auto simp: remove_char_def)

lemma remove_char_append: "remove_char c (a @ b) = remove_char c a @ remove_char c b"
  by (simp add: remove_char_def)

lemma remove_char_Cons_same: "remove_char c (c # b) = remove_char c b"
  by (simp add: remove_char_def)

lemma limpar_celula_decimal:
  assumes na: "\<not> isna v"
    and t: "strip (py_str v) = a @ ''.'' @ b"
    and a: "list_all py_isdigit_char a" and b: "list_all py_isdigit_char b"
    and ne: "a @ b \<noteq> []"
  shows "limpar_celula v = Str (spec_decimal_trim a b)"
proof -
  have da: "CHR ''.'' \<notin> set a" and db: "CHR ''.'' \<notin> set b"
    using a b by (simp_all add: digits_no_dot)
  have rm: "remove_char CHR ''.'' (a @ CHR ''.'' # b) = a @ b"
    using da db by (simp add: remove_char_append remove_char_Cons_same remove_no_occurrence)
  have dig: "isdigit (a @ b)" using a b ne by (simp add: isdigit_def)
  have sp: "py_split CHR ''.'' (a @ CHR ''.'' # b) = [a, b]"
    using da db by (rule py_split_two)
  show ?thesis
    using na t rm dig sp
    by (simp add: limpar_celula_def spec_decimal_trim_def Let_def rstrip_Nil_iff)
qed

lemma limpar_celula_other:
  assumes na: "\<not> isna v"
    and t: "\<not> (length (filter (\<lambda>c. c = CHR ''.'') (strip (py_str v))) = 1
              \<and> isdigit (remove_char CHR ''.'' (strip (py_str v))))"
  shows "limpar_celula v = Str (strip (py_str v))"
proof (cases "CHR ''.'' \<in> set (strip (py_str v)) \<and> isdigit (remove_char CHR ''.'' (strip (py_str v)))")
  case False
  then show ?thesis using na by (auto simp: limpar_celula_def Let_def)
next
  case True
  with t have "length (py_split CHR ''.'' (strip (py_str v))) \<noteq> 2"
    by (simp add: length_py_split)
  then show ?thesis using na True
    by (auto simp: limpar_celula_def Let_def split: list.splits)
qed

lemma one_dot_decompose:
  assumes "length (filter (\<lambda>c. c = d) t) = 1"
  shows "\<exists>a b. t = a @ (d :: char) # b \<and> d \<notin> set a \<and> d \<notin> set b"
proof -
  have "length (py_split d t) = 2" using assms by (simp add: length_py_split)
  then obtain a b where "py_split d t = [a, b]"
    by (cases "py_split d t"; cases "tl (py_split d t)"; cases "tl (tl (py_split d t))") auto
  then show ?thesis by (auto simp: py_split_two_iff)
qed

lemma limpar_celula_idem: "limpar_celula (limpar_celula v) = limpar_celula v"
proof (cases "isna v")
  case True
  then show ?thesis by (simp add: limpar_celula_def)
next
  case na: False
  define t where "t = strip (py_str v)"
  show ?thesis
  proof (cases "length (filter (\<lambda>c. c = CHR ''.'') t) = 1 \<and> isdigit (remove_char CHR ''.'' t)")
    case False
    then have r: "limpar_celula v = Str t"
      using na limpar_celula_other [of v] by (simp add: t_def)
    have "strip (py_str (Str t)) = t" by (simp add: t_def strip_idem)
    then have "limpar_celula (Str t) = Str t"
      using False limpar_celula_other [of "Str t"] by simp
    with r show ?thesis by simp
  next
    case True
    then obtain a b where ab: "t = a @ CHR ''.'' # b"
      and da: "CHR ''.'' \<notin> set a" and db: "CHR ''.'' \<notin> set b"
      using one_dot_decompose [of "CHR ''.''" t] by blast
    have "remove_char CHR ''.'' t = a @ b"
      using ab da db by (simp add: remove_char_append remove_char_Cons_same remove_no_occurrence)
    with True have dig: "isdigit (a @ b)" by simp
    then have a: "list_all py_isdigit_char a" and b: "list_all py_isdigit_char b"
      and ne: "a @ b \<noteq> []"
      by (simp_all add: isdigit_def)
    have r: "limpar_celula v = Str (spec_decimal_trim a b)"
      using na ab a b ne limpar_celula_decimal [of v a b] by (simp add: t_def)
    show ?thesis
    proof (cases "rstrip CHR ''0'' b = []")
      case e: True
      have "strip (py_str (Str a)) = a" using a by (simp add: digits_strip)
      moreover have "filter (\<lambda>c. c = CHR ''.'') a = []"
        using da by (auto simp: filter_empty_conv)
      ultimately have "limpar_celula (Str a) = Str a"
        using limpar_celula_other [of "Str a"] by simp
      then show ?thesis using r e by (simp add: spec_decimal_trim_def)
    next
      case e: False
      let ?b = "rstrip CHR ''0'' b"
      have b': "list_all py_isdigit_char ?b" using b by (rule digits_rstrip)
      have "strip (py_str (Str (a @ ''.'' @ ?b))) = a @ ''.'' @ ?b"
        using a b' by (simp add: decimal_strip del: append.simps)
      then have "limpar_celula (Str (a @ ''.'' @ ?b)) = Str (spec_decimal_trim a ?b)"
        using a b' e limpar_celula_decimal [of "Str (a @ ''.'' @ ?b)" a ?b] by simp
      then show ?thesis using r e by (simp add: spec_decimal_trim_def rstrip_idem)
    qed
  qed
qed

lemma limpar_valor_final_split:
  assumes "CHR ''.'' \<notin> set a" "CHR ''.'' \<notin> set b" "py_str v = a @ CHR ''.'' # b @ r"
    "r = [] \<or> hd r = CHR ''.''" "\<not> isna v"
  shows "limpar_valor_final v = Inr (Str (spec_decimal_trim a b))"
proof -
  have "\<exists>ps. py_split CHR ''.'' (a @ CHR ''.'' # b @ r) = a # b # ps"
  proof (cases r)
    case Nil
    then show ?thesis using assms by (simp add: py_split_two)
  next
    case (Cons x xs)
    with assms have "r = CHR ''.'' # xs" by simp
    then show ?thesis using assms(1,2) by (simp add: py_split_first)
  qed
  then obtain ps where "py_split CHR ''.'' (py_str v) = a # b # ps" using assms(3) by auto
  moreover have "v \<noteq> Str []" using assms(3) by auto
  ultimately show ?thesis using assms(3,5)
    by (simp add: limpar_valor_final_def spec_decimal_trim_def Let_def)
qed

lemma dot_decompose:
  assumes "CHR ''.'' \<in> set t"
  shows "\<exists>a b r. t = a @ CHR ''.'' # b @ r \<and> CHR ''.'' \<notin> set a \<and> CHR ''.'' \<notin> set b
           \<and> (r = [] \<or> hd r = CHR ''.'')"
proof -
  obtain a q where t: "t = a @ CHR ''.'' # q" and a: "CHR ''.'' \<notin> set a"
    using assms split_list_first [of "CHR ''.''" t] by blast
  show ?thesis
  proof (cases "CHR ''.'' \<in> set q")
    case False
    then show ?thesis using t a by (intro exI [of _ a] exI [of _ q] exI [of _ "[]"]) simp
  next
    case True
    then obtain b r where "q = b @ CHR ''.'' # r" "CHR ''.'' \<notin> set b"
      using split_list_first [of "CHR ''.''" q] by blast
    then show ?thesis using t a
      by (intro exI [of _ a] exI [of _ b] exI [of _ "CHR ''.'' # r"]) simp
  qed
qed

lemma limpar_valor_final_no_dot:
  "\<not> isna v \<Longrightarrow> CHR ''.'' \<notin> set (py_str v) \<Longrightarrow> limpar_valor_final v = Inr (Str (py_str v))"
  by (auto simp: limpar_valor_final_def)

lemma limpar_valor_final_idem:
  "\<exists>c. limpar_valor_final v = Inr c \<and> limpar_valor_final c = Inr c"
proof (cases "isna v")
  case True
  then show ?thesis by (simp add: limpar_valor_final_def)
next
  case na: False
  show ?thesis
  proof (cases "CHR ''.'' \<in> set (py_str v)")
    case False
    then have "limpar_valor_final v = Inr (Str (py_str v))"
      using na by (rule_tac limpar_valor_final_no_dot)
    moreover have "limpar_valor_final (Str (py_str v)) = Inr (Str (py_str v))"
      using False by (simp add: limpar_valor_final_no_dot)
    ultimately show ?thesis by simp
  next
    case True
    then obtain a b r where t: "py_str v = a @ CHR ''.'' # b @ r"
      and da: "CHR ''.'' \<notin> set a" and db: "CHR ''.'' \<notin> set b"
      and r: "r = [] \<or> hd r = CHR ''.''"
      using dot_decompose [of "py_str v"] by blast
    have 1: "limpar_valor_final v = Inr (Str (spec_decimal_trim a b))"
      using da db t r na by (rule limpar_valor_final_split)
    show ?thesis
    proof (cases "rstrip CHR ''0'' b = []")
      case e: True
      have "limpar_valor_final (Str a) = Inr (Str a)"
        using da by (simp add: limpar_valor_final_no_dot)
      with 1 e show ?thesis by (simp add: spec_decimal_trim_def)
    next
      case e: False
      let ?b = "rstrip CHR ''0'' b"
      have "CHR ''.'' \<notin> set ?b" using db set_rstrip [of "CHR ''.''" "CHR ''0''" b] by blast
      then have "limpar_valor_final (Str (a @ CHR ''.'' # ?b)) = Inr (Str (spec_decimal_trim a ?b))"
        using da limpar_valor_final_split [of a ?b "Str (a @ CHR ''.'' # ?b)" "[]"] by simp
      with 1 e show ?thesis by (simp add: spec_decimal_trim_def rstrip_idem)
    qed
  qed
qed

section \<open>The locale-aware coercion\<close>

lemma filter_dropWhile_disjoint:
  "(\<And>x. Q x \<Longrightarrow> \<not> P x) \<Longrightarrow> filter P (dropWhile Q xs) = filter P xs"
  by (induction xs) auto

lemma filter_strip:
  assumes "\<And>x. py_isspace x \<Longrightarrow> \<not> P x"
  shows "filter P (strip s) = filter P s"
proof -
  have d: "filter P (dropWhile py_isspace xs) = filter P xs" for xs
    by (rule filter_dropWhile_disjoint) (rule assms)
  have "filter P (strip s) = rev (filter P (dropWhile py_isspace (rev (dropWhile py_isspace s))))"
    by (simp add: strip_def rev_filter)
  also have "\<dots> = rev (filter P (rev (dropWhile py_isspace s)))"
    by (simp only: d)
  also have "\<dots> = filter P (dropWhile py_isspace s)"
    by (simp add: rev_filter)
  also have "\<dots> = filter P s"
    by (simp only: d)
  finally show ?thesis .
qed

lemma so_numericos_strip: "so_numericos (strip s) = so_numericos s"
  unfolding so_numericos_def
  by (rule filter_strip) (auto simp: py_isspace_def re_digit_def Let_def)

lemma so_numericos_invalidos: "s \<in> set valores_invalidos \<Longrightarrow> so_numericos s = []"
  by (auto simp: valores_invalidos_def so_numericos_def re_digit_def)

lemma converter_core:
  assumes "\<not> isna v"
  shows "converter_para_numero v =
     (let valor_limpo = so_numericos (py_str v) in
      if valor_limpo = [] then Str []
      else if CHR '','' \<in> set valor_limpo then
        (if CHR ''.'' \<in> set valor_limpo then
           (case py_split CHR '','' valor_limpo of
              [] \<Rightarrow> Str (strip (py_str v))
            | p0 # rest \<Rightarrow>
                (case rest of
                   parte_decimal # _ \<Rightarrow> Str (remove_char CHR ''.'' p0 @ ''.'' @ parte_decimal)
                 | [] \<Rightarrow> Str (remove_char CHR ''.'' p0)))
         else Str (replace_char CHR '','' CHR ''.'' valor_limpo))
      else if CHR ''.'' \<in> set valor_limpo then
        (if length (py_split CHR ''.'' valor_limpo) > 2 then Str (concat (py_split CHR ''.'' valor_limpo))
         else Str valor_limpo)
      else Str valor_limpo)"
proof (cases "strip (py_str v) \<in> set valores_invalidos")
  case True
  then have "so_numericos (py_str v) = []"
    using so_numericos_invalidos [of "strip (py_str v)"] by (simp add: so_numericos_strip)
  then show ?thesis using assms True by (simp add: converter_para_numero_def)
next
  case False
  then show ?thesis using assms
    by (simp add: converter_para_numero_def so_numericos_strip Let_def split: list.splits)
qed

lemma spec_virgula_decimal_one:
  assumes "CHR '','' \<notin> set b"
  shows "spec_virgula_decimal (a @ CHR '','' # b) = remove_char CHR ''.'' a @ ''.'' @ b"
proof -
  have "takeWhile (\<lambda>x. x \<noteq> CHR '','') (rev b @ CHR '','' # rev a) = rev b"
    using assms by (simp add: takeWhile_append)
  then show ?thesis by (simp add: spec_virgula_decimal_def)
qed

lemma converter_virgula_ponto:
  assumes na: "\<not> isna v"
    and one: "length (filter (\<lambda>x. x = CHR '','') (so_numericos (py_str v))) = 1"
    and dot: "CHR ''.'' \<in> set (so_numericos (py_str v))"
  shows "converter_para_numero v = Str (spec_virgula_decimal (so_numericos (py_str v)))"
proof -
  obtain a b where c: "so_numericos (py_str v) = a @ CHR '','' # b"
    and a: "CHR '','' \<notin> set a" and b: "CHR '','' \<notin> set b"
    using one one_dot_decompose [of "CHR '',''" "so_numericos (py_str v)"] by blast
  have sp: "py_split CHR '','' (a @ CHR '','' # b) = [a, b]" using a b by (rule py_split_two)
  have "converter_para_numero v = Str (remove_char CHR ''.'' a @ ''.'' @ b)"
    using dot c sp by (simp add: converter_core [OF na] Let_def)
  then show ?thesis using c b by (simp add: spec_virgula_decimal_one)
qed

lemma converter_virgula:
  assumes na: "\<not> isna v"
    and "CHR '','' \<in> set (so_numericos (py_str v))"
    and "CHR ''.'' \<notin> set (so_numericos (py_str v))"
  shows "converter_para_numero v = Str (replace_char CHR '','' CHR ''.'' (so_numericos (py_str v)))"
  using assms(2,3) by (auto simp: converter_core [OF na] Let_def)






section \<open>The header locator\<close>

lemma starts_with_iff: "starts_with m s \<longleftrightarrow> (\<exists>q. s = m @ q)"
  by (induction m s rule: starts_with.induct) auto

lemma contains_iff: "contains m s \<longleftrightarrow> (\<exists>p q. s = p @ m @ q)"
proof (induction s)
  case Nil
  then show ?case by auto
next
  case (Cons c cs)
  show ?case
  proof
    assume "contains m (c # cs)"
    then consider "starts_with m (c # cs)" | "contains m cs" by auto
    then show "\<exists>p q. c # cs = p @ m @ q"
    proof cases
      case 1
      then obtain q where "c # cs = m @ q" using starts_with_iff by blast
      then have "c # cs = [] @ m @ q" by simp
      then show ?thesis by blast
    next
      case 2
      then obtain p q where "cs = p @ m @ q" using Cons.IH by blast
      then have "c # cs = (c # p) @ m @ q" by simp
      then show ?thesis by blast
    qed
  next
    assume "\<exists>p q. c # cs = p @ m @ q"
    then obtain p q where pq: "c # cs = p @ m @ q" by blast
    show "contains m (c # cs)"
    proof (cases p)
      case Nil
      then have "starts_with m (c # cs)" using pq starts_with_iff by auto
      then show ?thesis by simp
    next
      case (Cons x xs)
      then have "cs = xs @ m @ q" using pq by simp
      then have "contains m cs" using Cons.IH by blast
      then show ?thesis by simp
    qed
  qed
qed

lemma tem_marcador_iff:
  "tem_marcador linha \<longleftrightarrow>
     (\<exists>p q. py_upper (linha_str linha) = p @ marcador_espacado @ q)
     \<or> (\<exists>p q. py_upper (linha_str linha) = p @ marcador_sublinhado @ q)"
  by (simp add: tem_marcador_def contains_iff)



section \<open>The date labels\<close>

lemma casa_append: "casa (ps @ qs) s \<Longrightarrow> casa ps s"
  by (induction ps s rule: casa.induct) auto

lemma casa_timestamp_ano_mes: "casa padrao_timestamp s \<Longrightarrow> casa padrao_ano_mes s"
  unfolding padrao_timestamp_def by (rule casa_append)

lemma normalizar_passo_id: "normalizar_passo nomes coluna = nomes"
  using casa_timestamp_ano_mes [of "py_str coluna"]
  by (auto simp: normalizar_passo_def Let_def)

lemma foldl_normalizar_passo: "foldl normalizar_passo nomes colunas = nomes"
  by (induction colunas arbitrary: nomes) (simp_all add: normalizar_passo_id)

lemma normalizar_colunas_data_id: "normalizar_colunas_data df = df"
  by (simp add: normalizar_colunas_data_def foldl_normalizar_passo)

section \<open>The reshape\<close>

lemma linha_completa_id: "length linha = length cols \<Longrightarrow> linha_completa cols linha = linha"
  unfolding linha_completa_def celula_def by (rule nth_equalityI) auto

lemma length_linha_completa: "length (linha_completa cols linha) = length cols"
  by (simp add: linha_completa_def)

lemma zip_map_skip:
  "length cs = length xs \<Longrightarrow> l \<notin> set cs \<Longrightarrow> map (\<lambda>(c, x). if c = l then f x else x) (zip cs xs) = xs"
  by (induction cs xs rule: list_induct2) auto

lemma length_rows_aplicar_coluna: "length (rows (aplicar_coluna f l df)) = length (rows df)"
  by (simp add: aplicar_coluna_def)

lemma length_rows_atribuir_constante: "length (rows (atribuir_constante l v df)) = length (rows df)"
  by (simp add: atribuir_constante_def)

lemma digit_char_digit: "d < 10 \<Longrightarrow> digit_char d \<in> set ''0123456789''"
  unfolding digit_char_def by (rule nth_mem) simp

lemma str_nat_digits: "c \<in> set (str_nat n) \<Longrightarrow> c \<in> set ''0123456789''"
proof (induction n rule: str_nat.induct)
  case (1 n)
  show ?case
  proof (cases "n < 10")
    case True
    then show ?thesis using "1.prems" digit_char_digit [of n] by (simp add: str_nat.simps [of n])
  next
    case False
    then have "c \<in> set (str_nat (n div 10)) \<or> c = digit_char (n mod 10)"
      using "1.prems" by (auto simp: str_nat.simps [of n])
    then show ?thesis
      using "1.IH" False digit_char_digit [of "n mod 10"] by auto
  qed
qed

lemma str_nat_no_letter:
  "str_nat n \<noteq> CHR ''G'' # s" "str_nat n \<noteq> CHR ''V'' # s" "str_nat n \<noteq> CHR ''O'' # s"
  using str_nat_digits [of "CHR ''G''" n] str_nat_digits [of "CHR ''V''" n]
    str_nat_digits [of "CHR ''O''" n]
  by auto

lemma colunas_id_texto:
  "l \<in> set (colunas_id df) \<Longrightarrow>
     l = Str ''GRUPO_ECONOMICO'' \<or> l = Str ''VARIAVEL'' \<or> l = Str ''OPERADORA''"
  by (cases l) (auto simp: colunas_id_def colunas_identificacao_def str_nat_no_letter split: if_splits)

lemma colunas_id_outras:
  "Str ''REFERENCIA_MES'' \<notin> set (colunas_id df)" "Str ''VALOR'' \<notin> set (colunas_id df)"
  "Str ''SERVICO'' \<notin> set (colunas_id df)"
  using colunas_id_texto [of _ df] by auto

lemma transformar_longo:
  assumes v: "Str ''VALOR'' \<notin> set (columns df)"
    and i: "colunas_id df \<noteq> []" and d: "colunas_data df \<noteq> []"
  shows "transformar_para_formato_longo df servico =
     \<lparr>columns = colunas_id df @ [Str ''REFERENCIA_MES'', Str ''VALOR'', Str ''SERVICO''],
      rows = concat (map (\<lambda>coluna. map (linha_longa df servico coluna) (rows df)) (colunas_data df))\<rparr>"
proof -
  let ?ids = "colunas_id df"
  let ?r1 = "\<lambda>v linha. map (valor_em (columns df) linha) ?ids @ [v, valor_em (columns df) linha v]"
  let ?l1 = "concat (map (\<lambda>v. map (?r1 v) (rows df)) (colunas_data df))"
  let ?r2 = "\<lambda>v linha. map (valor_em (columns df) linha) ?ids
                @ [to_datetime_ano_mes v, valor_em (columns df) linha v]"
  let ?l2 = "concat (map (\<lambda>v. map (?r2 v) (rows df)) (colunas_data df))"
  let ?r3 = "\<lambda>v linha. map (valor_em (columns df) linha) ?ids
                @ [to_datetime_ano_mes v, valor_em (columns df) linha v, Str servico]"
  let ?l3 = "concat (map (\<lambda>v. map (?r3 v) (rows df)) (colunas_data df))"
  let ?c2 = "?ids @ [Str ''REFERENCIA_MES'', Str ''VALOR'']"
  let ?c3 = "?ids @ [Str ''REFERENCIA_MES'', Str ''VALOR'', Str ''SERVICO'']"
  note o = colunas_id_outras [of df]
  have m: "pd_melt df ?ids (colunas_data df) (Str ''REFERENCIA_MES'') (Str ''VALOR'')
           = Inr \<lparr>columns = ?c2, rows = ?l1\<rparr>"
    using v by (simp add: pd_melt_def)
  have a: "aplicar_coluna to_datetime_ano_mes (Str ''REFERENCIA_MES'') \<lparr>columns = ?c2, rows = ?l1\<rparr>
           = \<lparr>columns = ?c2, rows = ?l2\<rparr>"
    using o by (simp add: aplicar_coluna_def map_concat comp_def linha_completa_id zip_map_skip)
  have b: "atribuir_constante (Str ''SERVICO'') (Str servico) \<lparr>columns = ?c2, rows = ?l2\<rparr>
           = \<lparr>columns = ?c3, rows = ?l3\<rparr>"
    using o by (simp add: atribuir_constante_def map_concat comp_def linha_completa_id)
  have c: "aplicar_coluna converter_para_numero (Str ''VALOR'') \<lparr>columns = ?c3, rows = ?l3\<rparr>
           = \<lparr>columns = ?c3,
              rows = concat (map (\<lambda>coluna. map (linha_longa df servico coluna) (rows df)) (colunas_data df))\<rparr>"
    using o by (simp add: aplicar_coluna_def map_concat comp_def linha_completa_id zip_map_skip
        linha_longa_def [abs_def])
  show ?thesis
    using i d by (simp add: transformar_para_formato_longo_def m a b c)
qed

lemma length_concat_map_const:
  "length (concat (map (\<lambda>v. map (f v) xs) vs)) = length xs * length vs"
  by (induction vs) simp_all

lemma transformar_contagem:
  assumes "Str ''VALOR'' \<notin> set (columns df)" "colunas_id df \<noteq> []" "colunas_data df \<noteq> []"
  shows "length (rows (transformar_para_formato_longo df servico))
         = length (rows df) * length (colunas_data df)"
  using assms by (simp add: transformar_longo length_concat_map_const)

lemma transformar_excecao:
  assumes "Str ''VALOR'' \<in> set (columns df)"
  shows "transformar_para_formato_longo df servico
         = atribuir_constante (Str ''SERVICO'') (Str servico) df"
  using assms by (simp add: transformar_para_formato_longo_def pd_melt_def)

section \<open>The consolidation\<close>

lemma celula_linha_completa:
  "j < length cols \<Longrightarrow> celula (linha_completa cols linha) j = celula linha j"
  by (simp add: linha_completa_def celula_def)

lemma posicao_Some:
  "l \<in> set cols \<Longrightarrow> \<exists>i. posicao l cols = Some i \<and> i < length cols \<and> cols ! i = l"
  by (induction cols) auto

lemma posicao_None: "l \<notin> set cols \<Longrightarrow> posicao l cols = None"
  by (induction cols) auto

lemma posicao_bound: "posicao l cols = Some i \<Longrightarrow> i < length cols \<and> cols ! i = l"
  by (induction cols arbitrary: i) (auto split: if_splits)

lemma filter_eq_upt: "i < n \<Longrightarrow> filter (\<lambda>j. j = i) [0..<n] = [i]"
  by (induction n) (auto simp: less_Suc_eq)

lemma posicoes_distinct:
  assumes "distinct cols" "posicao l cols = Some i"
  shows "posicoes l cols = [i]"
proof -
  have i: "i < length cols" "cols ! i = l" using assms(2) posicao_bound by blast+
  have "filter (\<lambda>j. cols ! j = l) [0..<length cols] = filter (\<lambda>j. j = i) [0..<length cols]"
    using assms(1) i by (intro filter_cong) (auto simp: nth_eq_iff_index_eq)
  then show ?thesis using i by (simp add: posicoes_def filter_eq_upt)
qed

lemma selecionar_distinct:
  assumes d: "distinct (columns df)" and s: "set nomes \<subseteq> set (columns df)"
  shows "selecionar df nomes =
     \<lparr>columns = nomes, rows = map (\<lambda>linha. map (valor_em (columns df) linha) nomes) (rows df)\<rparr>"
proof -
  have p: "concat (map (\<lambda>l. posicoes l (columns df)) ns) = map (\<lambda>l. the (posicao l (columns df))) ns"
    if "set ns \<subseteq> set (columns df)" for ns
    using that
  proof (induction ns)
    case Nil
    then show ?case by simp
  next
    case (Cons n ns)
    then obtain i where "posicao n (columns df) = Some i"
      using posicao_Some [of n "columns df"] by auto
    then show ?case using Cons d by (simp add: posicoes_distinct)
  qed
  have c: "map (\<lambda>i. columns df ! i) (map (\<lambda>l. the (posicao l (columns df))) nomes) = nomes"
  proof -
    have "columns df ! the (posicao l (columns df)) = l" if "l \<in> set nomes" for l
    proof -
      from that s have "l \<in> set (columns df)" by blast
      then obtain i where "posicao l (columns df) = Some i" "columns df ! i = l"
        using posicao_Some [of l "columns df"] by blast
      then show ?thesis by simp
    qed
    then show ?thesis by (simp add: map_idI)
  qed
  have r: "map (celula linha) (map (\<lambda>l. the (posicao l (columns df))) nomes)
           = map (valor_em (columns df) linha) nomes" for linha
  proof -
    have "celula linha (the (posicao l (columns df))) = valor_em (columns df) linha l"
      if "l \<in> set nomes" for l
    proof -
      from that s have "l \<in> set (columns df)" by blast
      then obtain i where "posicao l (columns df) = Some i"
        using posicao_Some [of l "columns df"] by blast
      then show ?thesis by (simp add: valor_em_def)
    qed
    then show ?thesis by simp
  qed
  show ?thesis using p [OF s] c r by (simp add: selecionar_def)
qed

lemma mapa_erro_Inr:
  "mapa_erro f xs = Inr ys \<Longrightarrow> list_all2 (\<lambda>x y. f x = Inr y) xs ys"
proof (induction xs arbitrary: ys)
  case Nil
  then show ?case by simp
next
  case (Cons x xs)
  then show ?case by (auto split: sum.splits)
qed

lemma set_primeiras: "set (primeiras vistos xs) = set xs - set vistos"
  by (induction vistos xs rule: primeiras.induct) auto

lemma distinct_primeiras: "distinct (primeiras vistos xs)"
  by (induction vistos xs rule: primeiras.induct) (auto simp: set_primeiras)

lemma set_unicos: "set (unicos xs) = set xs"
  by (simp add: unicos_def set_primeiras)

lemma distinct_unicos: "distinct (unicos xs)"
  by (simp add: unicos_def distinct_primeiras)

lemma primeiras_distinct: "distinct xs \<Longrightarrow> set xs \<inter> set vistos = {} \<Longrightarrow> primeiras vistos xs = xs"
  by (induction vistos xs rule: primeiras.induct) auto

lemma unicos_distinct: "distinct xs \<Longrightarrow> unicos xs = xs"
  by (simp add: unicos_def primeiras_distinct)

lemma posicao_nth_distinct:
  "distinct cols \<Longrightarrow> i < length cols \<Longrightarrow> posicao (cols ! i) cols = Some i"
proof (induction cols arbitrary: i)
  case Nil
  then show ?case by simp
next
  case (Cons c cs)
  show ?case
  proof (cases i)
    case 0
    then show ?thesis by simp
  next
    case (Suc k)
    then have "cs ! k \<in> set cs" using Cons.prems by simp
    then have "cs ! k \<noteq> c" using Cons.prems by auto
    then show ?thesis using Suc Cons by simp
  qed
qed

lemma valor_em_linha_completa:
  assumes "distinct cols"
  shows "map (valor_em cols linha) cols = linha_completa cols linha"
proof (rule nth_equalityI)
  show "length (map (valor_em cols linha) cols) = length (linha_completa cols linha)"
    by (simp add: linha_completa_def)
next
  fix i assume "i < length (map (valor_em cols linha) cols)"
  then have i: "i < length cols" by simp
  then show "map (valor_em cols linha) cols ! i = linha_completa cols linha ! i"
    using assms by (simp add: valor_em_def posicao_nth_distinct linha_completa_def)
qed

lemma pd_concat_rows:
  assumes c: "pd_concat dfs = Inr df_concat" and d: "distinct (columns df_concat)"
  shows "rows df_concat =
     concat (map (\<lambda>df. map (\<lambda>linha. map (valor_em (columns df) linha) (columns df_concat)) (rows df)) dfs)"
proof (cases dfs)
  case Nil
  then show ?thesis using c by (simp add: pd_concat_def)
next
  case (Cons df0 rest)
  show ?thesis
  proof (cases "list_all (\<lambda>df. columns df = columns df0) dfs")
    case True
    then have dc: "df_concat = \<lparr>columns = columns df0,
        rows = concat (map (\<lambda>df. map (linha_completa (columns df)) (rows df)) dfs)\<rparr>"
      using c Cons by (simp add: pd_concat_def)
    have "linha_completa (columns df) linha = map (valor_em (columns df) linha) (columns df0)"
      if "df \<in> set dfs" for df linha
    proof -
      have e: "columns df = columns df0" using True that by (simp add: list_all_iff)
      then have "distinct (columns df)" using d dc by simp
      then show ?thesis using e valor_em_linha_completa [of "columns df" linha] by simp
    qed
    then have "map (\<lambda>df. map (linha_completa (columns df)) (rows df)) dfs
          = map (\<lambda>df. map (\<lambda>linha. map (valor_em (columns df) linha) (columns df0)) (rows df)) dfs"
      by (intro map_cong refl)
    then have "concat (map (\<lambda>df. map (linha_completa (columns df)) (rows df)) dfs)
          = concat (map (\<lambda>df. map (\<lambda>linha. map (valor_em (columns df) linha) (columns df0)) (rows df)) dfs)"
      by (rule arg_cong)
    then show ?thesis using dc by simp
  next
    case False
    then show ?thesis using c Cons by (auto simp: pd_concat_def Let_def split: if_splits)
  qed
qed

lemma renomear_rows: "rows (renomear df) = rows df"
  by (simp add: renomear_def)

lemma renomear_distinct: "distinct (columns (renomear df)) \<Longrightarrow> distinct (columns df)"
  by (auto simp: renomear_def distinct_map split: if_splits)

lemma limpeza_final_columns: "limpeza_final d = Inr e \<Longrightarrow> columns e = columns d"
  by (auto simp: limpeza_final_def split: option.splits if_splits sum.splits)

lemma limpeza_final_rows:
  assumes l: "limpeza_final d = Inr e" and dist: "distinct (columns d)"
  shows "list_all2 (\<lambda>antes depois. \<forall>j<length (columns d).
            if columns d ! j = Str ''VALOR'' then limpar_valor_final (celula antes j) = Inr (celula depois j)
            else celula depois j = celula antes j) (rows d) (rows e)"
proof (cases "posicao (Str ''VALOR'') (columns d)")
  case None
  then have "e = d" using l by (simp add: limpeza_final_def)
  moreover have "columns d ! j \<noteq> Str ''VALOR''" if "j < length (columns d)" for j
  proof
    assume "columns d ! j = Str ''VALOR''"
    then have "Str ''VALOR'' \<in> set (columns d)" using that nth_mem by metis
    then show False using None posicao_Some [of "Str ''VALOR''" "columns d"] by auto
  qed
  ultimately show ?thesis by (simp add: list_all2_same)
next
  case (Some i)
  then have i: "i < length (columns d)" "columns d ! i = Str ''VALOR''"
    using posicao_bound by blast+
  let ?f = "\<lambda>linha. case limpar_valor_final (celula linha i) of
                        Inl e \<Rightarrow> Inl e
                      | Inr v \<Rightarrow> Inr ((linha_completa (columns d) linha)[i := v])"
  have m: "mapa_erro ?f (rows d) = Inr (rows e)"
    using l Some by (auto simp: limpeza_final_def split: if_splits sum.splits)
  have step: "\<forall>j<length (columns d).
            if columns d ! j = Str ''VALOR'' then limpar_valor_final (celula antes j) = Inr (celula depois j)
            else celula depois j = celula antes j"
    if h: "?f antes = Inr depois" for antes depois
  proof (intro allI impI)
    fix j assume j: "j < length (columns d)"
    obtain v where v: "limpar_valor_final (celula antes i) = Inr v"
      and dp: "depois = (linha_completa (columns d) antes)[i := v]"
      using h by (auto split: sum.splits)
    show "if columns d ! j = Str ''VALOR'' then limpar_valor_final (celula antes j) = Inr (celula depois j)
            else celula depois j = celula antes j"
    proof (cases "j = i")
      case True
      then show ?thesis using i v dp
        by (simp add: celula_def length_linha_completa)
    next
      case False
      then have "columns d ! j \<noteq> Str ''VALOR''"
        using dist i j nth_eq_iff_index_eq [of "columns d" j i] by auto
      moreover have "celula depois j = celula antes j"
        using False j dp celula_linha_completa [of j "columns d" antes]
        by (simp add: celula_def length_linha_completa)
      ultimately show ?thesis by simp
    qed
  qed
  have "list_all2 (\<lambda>x y. ?f x = Inr y) (rows d) (rows e)"
    using m by (rule mapa_erro_Inr)
  then show ?thesis
    by (rule list_all2_mono) (use step in blast)
qed

lemma inserir_id_Inr:
  "inserir_id df = Inr fi \<Longrightarrow>
     Str ''id'' \<notin> set (columns df) \<and>
     fi = \<lparr>columns = Str ''id'' # columns df,
           rows = map (\<lambda>(k, linha). IntV (int k) # linha_completa (columns df) linha)
                      (zip [1..<Suc (length (rows df))] (rows df))\<rparr>"
  by (auto simp: inserir_id_def split: if_splits)

lemma celula_Cons_Suc: "celula (x # linha) (Suc j) = celula linha j"
  by (simp add: celula_def)

lemma valor_em_id:
  assumes "l \<in> set (Str ''id'' # cols)"
  shows "valor_em (Str ''id'' # cols) (x # linha_completa cols linha) l
         = valor_em (Str ''id'' # cols) (x # linha) l"
proof (cases "l = Str ''id''")
  case True
  then show ?thesis by (simp add: valor_em_def celula_def)
next
  case False
  then have "l \<in> set cols" using assms by simp
  then obtain j where j: "posicao l cols = Some j" "j < length cols"
    using posicao_Some [of l cols] by blast
  have "celula (x # linha_completa cols linha) (Suc j) = celula (x # linha) (Suc j)"
    using celula_linha_completa [OF j(2), of linha] by (simp only: celula_Cons_Suc)
  then show ?thesis using False j by (simp add: valor_em_def)
qed

lemma reordenar_inserido:
  assumes d: "distinct (columns r)" and n: "Str ''id'' \<notin> set (columns r)"
  defines "fi \<equiv> \<lparr>columns = Str ''id'' # columns r,
           rows = map (\<lambda>(k, linha). IntV (int k) # linha_completa (columns r) linha)
                      (zip [1..<Suc (length (rows r))] (rows r))\<rparr>"
  defines "nomes \<equiv> Str ''id'' # filter (\<lambda>c. c \<in> set (columns r)) (tl colunas_desejadas)
                     @ filter (\<lambda>c. c \<notin> set colunas_desejadas) (columns r)"
  shows "reordenar fi =
     \<lparr>columns = nomes,
      rows = map (\<lambda>(k, linha). map (valor_em (Str ''id'' # columns r) (IntV (int k) # linha)) nomes)
                 (zip [1..<Suc (length (rows r))] (rows r))\<rparr>"
proof -
  have nm: "filter (\<lambda>c. c \<in> set (columns fi)) colunas_desejadas
            @ filter (\<lambda>c. c \<notin> set colunas_desejadas) (columns fi) = nomes"
    by (simp add: fi_def nomes_def colunas_desejadas_def)
  have sub: "set nomes \<subseteq> set (columns fi)"
    by (auto simp: fi_def nomes_def)
  have dfi: "distinct (columns fi)" using d n by (simp add: fi_def)
  have "reordenar fi = selecionar fi nomes"
    using nm by (simp add: reordenar_def Let_def)
  also have "\<dots> = \<lparr>columns = nomes,
        rows = map (\<lambda>linha. map (valor_em (columns fi) linha) nomes) (rows fi)\<rparr>"
    using dfi sub by (rule selecionar_distinct)
  also have "map (\<lambda>linha. map (valor_em (columns fi) linha) nomes) (rows fi)
        = map (\<lambda>(k, linha). map (valor_em (Str ''id'' # columns r) (IntV (int k) # linha)) nomes)
                 (zip [1..<Suc (length (rows r))] (rows r))"
  proof -
    have "map (valor_em (Str ''id'' # columns r) (x # linha_completa (columns r) linha)) nomes
          = map (valor_em (Str ''id'' # columns r) (x # linha)) nomes" for x linha
      using sub by (intro map_cong refl valor_em_id) (auto simp: fi_def)
    then show ?thesis by (simp add: fi_def comp_def case_prod_beta)
  qed
  finally show ?thesis .
qed

lemma map_zip_fst_upt:
  "length ks = length xs \<Longrightarrow> map (\<lambda>(k, x). f k) (zip ks xs) = map f ks"
  by (induction ks xs rule: list_induct2) auto

section \<open>The loader\<close>






lemma executemany_rows:
  "working conn n = Some tab \<Longrightarrow> executemany srv n ts conn = (True, conn') \<Longrightarrow>
     working conn' n = Some (tab\<lparr>trows := trows tab @ ts\<rparr>)"
proof (induction ts arbitrary: conn tab)
  case Nil
  then show ?case by simp
next
  case (Cons t ts)
  let ?tab = "tab\<lparr>trows := trows tab @ [t]\<rparr>"
  let ?conn = "conn\<lparr>working := (working conn)(n \<mapsto> ?tab)\<rparr>"
  have a: "accepts_row srv tab t" and e: "executemany srv n ts ?conn = (True, conn')"
    using Cons.prems by (auto split: if_splits)
  have "working ?conn n = Some ?tab" by simp
  then have "working conn' n = Some (?tab\<lparr>trows := trows ?tab @ ts\<rparr>)"
    using e by (rule Cons.IH)
  then show ?case by simp
qed

lemma create_table_from_csv_success:
  assumes "create_table_from_csv srv to_datetime connected (Inr df0) table_name db = (True, db')"
  shows "db' table_name =
     Some \<lparr>tcols = map (\<lambda>(col, dt). (col, get_column_type_for_your_table col dt))
                        (zip (col_names (preprocess_dataframe to_datetime df0))
                             (col_dtypes (preprocess_dataframe to_datetime df0))),
           trows = data_tuples (preprocess_dataframe to_datetime df0)\<rparr>"
proof -
  let ?df = "preprocess_dataframe to_datetime df0"
  let ?cols = "map (\<lambda>(col, dt). (col, get_column_type_for_your_table col dt))
                   (zip (col_names ?df) (col_dtypes ?df))"
  let ?c1 = "execute_drop table_name \<lparr>committed = db, working = db\<rparr>"
  have con: connected using assms by (auto simp: create_table_from_csv_def split: if_splits)
  have dn: "distinct (col_names ?df)"
    using assms con by (auto simp: create_table_from_csv_def Let_def split: if_splits)
  obtain ok2 conn2 where c: "execute_create srv table_name ?cols ?c1 = (ok2, conn2)"
    by (cases "execute_create srv table_name ?cols ?c1") auto
  obtain ok3 conn3 where m: "executemany srv table_name (data_tuples ?df) conn2 = (ok3, conn3)"
    by (cases "executemany srv table_name (data_tuples ?df) conn2") auto
  have ok2: ok2 using assms con dn c by (cases ok2) (auto simp: create_table_from_csv_def Let_def)
  have ok3: ok3 using assms con dn c ok2 m by (cases ok3) (auto simp: create_table_from_csv_def Let_def)
  have db': "db' = working conn3"
    using assms con dn c ok2 m ok3 by (simp add: create_table_from_csv_def Let_def commit_def)
  have "working conn2 table_name = Some \<lparr>tcols = ?cols, trows = []\<rparr>"
    using c ok2 by (auto simp: execute_create_def split: if_splits)
  then have "working conn3 table_name = Some (\<lparr>tcols = ?cols, trows = []\<rparr>\<lparr>trows := [] @ data_tuples ?df\<rparr>)"
    using m ok3 executemany_rows [of conn2 table_name "\<lparr>tcols = ?cols, trows = []\<rparr>" srv "data_tuples ?df" conn3]
    by simp
  then show ?thesis using db' by simp
qed

lemma to_sql_value_empty: "to_sql_value x = SqlText [] \<longleftrightarrow> x = CText []"
  by (cases x) auto

lemma normalize_name_valor: "normalize_name ''valor'' = ''valor''"
  by (simp add: normalize_name_def py_lower_def lower_char_def replace_char_def)

lemma col_names_map_column: "col_names (map_column f name df) = col_names df"
  by (simp add: map_column_def)

lemma preprocess_valor:
  assumes i: "i < length (col_names df)" and v: "col_names df ! i = ''valor''"
    and k: "k < length (records df)" and r: "i < length (records df ! k)"
  shows "records (preprocess_dataframe to_datetime df) ! k ! i
         = (if records df ! k ! i = CText [] then CNull else records df ! k ! i)"
    and "col_names (preprocess_dataframe to_datetime df) ! i = ''valor''"
proof -
  have mem: "''valor'' \<in> set (col_names df)" using i v nth_mem by metis
  let ?df1 = "if ''referencia_mes'' \<in> set (col_names df) then
                   (map_column to_datetime ''referencia_mes'' df)
                     \<lparr>col_dtypes := map (\<lambda>(c, d). if c = ''referencia_mes'' then Datetime64 else d)
                                         (zip (col_names df) (col_dtypes df))\<rparr>
                 else df"
  have n1: "col_names ?df1 = col_names df" by (simp add: map_column_def)
  have l1: "length (records ?df1) = length (records df)" by (simp add: map_column_def)
  have r1: "records ?df1 ! k ! i = records df ! k ! i" "i < length (records ?df1 ! k)"
    using i v k r by (simp_all add: map_column_def)
  have p: "preprocess_dataframe to_datetime df
           = (map_column (\<lambda>x. if x = CText [] then CNull else x) ''valor'' ?df1)
               \<lparr>col_names := map normalize_name (col_names ?df1)\<rparr>"
    using mem by (simp add: preprocess_dataframe_def Let_def col_names_map_column)
  show "records (preprocess_dataframe to_datetime df) ! k ! i
         = (if records df ! k ! i = CText [] then CNull else records df ! k ! i)"
    using i v k l1 r1 n1 by (simp add: p map_column_def)
  show "col_names (preprocess_dataframe to_datetime df) ! i = ''valor''"
    using i v n1 by (simp add: p map_column_def normalize_name_valor)
qed

section \<open>The claims about the numeric normaliser\<close>

lemma limpar_valor_final_returns: "\<exists>c. limpar_valor_final v = Inr c"
  using limpar_valor_final_idem [of v] by blast

text \<open>
  Claim C3, amended. \<^verbatim>\<open>limpar_celula\<close> works on the text with its surrounding
  whitespace removed: when that text is integer.fraction with both parts made of digits
  (not both empty), the result is the integer part followed, when the fraction without
  its trailing zeros is not empty, by a period and that fraction; any other text is
  returned with its surrounding whitespace removed; the missing value is returned
  unchanged. \<^verbatim>\<open>limpar_valor_final\<close> does the same trim on integer.fraction with
  both parts made of digits, returns a text without a period unchanged, and maps the
  missing value to the empty text. What \<^verbatim>\<open>limpar_valor_final\<close> does to other
  texts with a period is left open here.
\<close>

theorem decimal_trim_amended:
  "(strip s = a @ ''.'' @ b \<and> list_all py_isdigit_char a \<and> list_all py_isdigit_char b \<and> a @ b \<noteq> []
      \<longrightarrow> limpar_celula (Str s) = Str (spec_decimal_trim a b))
   \<and> (\<not> (length (filter (\<lambda>c. c = CHR ''.'') (strip s)) = 1
           \<and> isdigit (remove_char CHR ''.'' (strip s)))
      \<longrightarrow> limpar_celula (Str s) = Str (strip s))
   \<and> limpar_celula NaN = NaN
   \<and> (list_all py_isdigit_char a \<and> list_all py_isdigit_char b
      \<longrightarrow> limpar_valor_final (Str (a @ ''.'' @ b)) = Inr (Str (spec_decimal_trim a b)))
   \<and> (CHR ''.'' \<notin> set s \<longrightarrow> limpar_valor_final (Str s) = Inr (Str s))
   \<and> limpar_valor_final NaN = Inr (Str [])"
proof (intro conjI impI)
  assume "strip s = a @ ''.'' @ b \<and> list_all py_isdigit_char a \<and> list_all py_isdigit_char b \<and> a @ b \<noteq> []"
  then show "limpar_celula (Str s) = Str (spec_decimal_trim a b)"
    using limpar_celula_decimal [of "Str s" a b] by simp
next
  assume "\<not> (length (filter (\<lambda>c. c = CHR ''.'') (strip s)) = 1
           \<and> isdigit (remove_char CHR ''.'' (strip s)))"
  then show "limpar_celula (Str s) = Str (strip s)"
    using limpar_celula_other [of "Str s"] by simp
next
  show "limpar_celula NaN = NaN" by (simp add: limpar_celula_def)
next
  assume "list_all py_isdigit_char a \<and> list_all py_isdigit_char b"
  then have "CHR ''.'' \<notin> set a" "CHR ''.'' \<notin> set b" by (simp_all add: digits_no_dot)
  then show "limpar_valor_final (Str (a @ ''.'' @ b)) = Inr (Str (spec_decimal_trim a b))"
    using limpar_valor_final_split [of a b "Str (a @ ''.'' @ b)" "[]"] by simp
next
  assume "CHR ''.'' \<notin> set s"
  then show "limpar_valor_final (Str s) = Inr (Str s)"
    by (simp add: limpar_valor_final_no_dot)
next
  show "limpar_valor_final NaN = Inr (Str [])" by (simp add: limpar_valor_final_def)
qed

text \<open>The amended C3 at \<^verbatim>\<open>' 15.50 '\<close>, \<^verbatim>\<open>'15.00'\<close> and \<^verbatim>\<open>' abc '\<close>.\<close>

theorem decimal_trim_amended_witness:
  "limpar_celula (Str '' 15.50 '') = Str ''15.5''
   \<and> limpar_celula (Str ''15.00'') = Str ''15''
   \<and> limpar_celula (Str '' abc '') = Str ''abc''
   \<and> limpar_valor_final (Str ''15.50'') = Inr (Str ''15.5'')
   \<and> limpar_valor_final (Str ''15.00'') = Inr (Str ''15'')
   \<and> limpar_valor_final (Str '' abc '') = Inr (Str '' abc '')"
  using decimal_trim_amended [of "'' 15.50 ''" "''15''" "''50''"]
    decimal_trim_amended [of "''15.00''" "''15''" "''00''"]
    decimal_trim_amended [of "'' abc ''" "''15''" "''50''"]
  by (simp add: strip_def py_isspace_def py_isdigit_char_def isdigit_def remove_char_def
      spec_decimal_trim_def rstrip_def)

text \<open>
  C3 as the specification states it fails: \<^verbatim>\<open>limpar_celula\<close> changes the
  non-matching text \<^verbatim>\<open>' abc '\<close>, and \<^verbatim>\<open>limpar_valor_final\<close> changes the
  non-matching text \<^verbatim>\<open>'1.2.3'\<close> and the missing value.
\<close>

theorem decimal_trim_counterexample:
  "limpar_celula (Str '' abc '') = Str ''abc'' \<and> limpar_celula (Str '' abc '') \<noteq> Str '' abc ''
   \<and> limpar_valor_final (Str ''1.2.3'') = Inr (Str ''1.2'')
   \<and> limpar_valor_final (Str ''1.2.3'') \<noteq> Inr (Str ''1.2.3'')
   \<and> limpar_valor_final NaN = Inr (Str []) \<and> limpar_valor_final NaN \<noteq> Inr NaN"
  by (simp add: limpar_celula_def limpar_valor_final_def strip_def py_isspace_def rstrip_def)

text \<open>
  Claim C8. The decimal trim is idempotent at both implementations: applying
  \<^verbatim>\<open>limpar_celula\<close> twice gives what applying it once gives, and
  \<^verbatim>\<open>limpar_valor_final\<close> returns a value on which it returns that same value
  again. This holds for every cell, text or not.
\<close>

theorem decimal_trim_idempotent:
  "limpar_celula (limpar_celula v) = limpar_celula v
   \<and> (\<exists>c. limpar_valor_final v = Inr c \<and> limpar_valor_final c = Inr c)"
  using limpar_celula_idem [of v] limpar_valor_final_idem [of v] by simp

text \<open>
  Claim C4, amended. Let the cleaned text be the input without the characters that are
  not a digit, a comma or a period. When it holds exactly one comma and at least one
  period, the periods left of the comma are removed and the comma becomes a period;
  when it holds commas and no period, every comma becomes a period.
\<close>

theorem converter_virgula_amended:
  "\<not> isna v \<Longrightarrow>
   (length (filter (\<lambda>x. x = CHR '','') (so_numericos (py_str v))) = 1
      \<and> CHR ''.'' \<in> set (so_numericos (py_str v))
      \<longrightarrow> converter_para_numero v = Str (spec_virgula_decimal (so_numericos (py_str v))))
   \<and> (CHR '','' \<in> set (so_numericos (py_str v)) \<and> CHR ''.'' \<notin> set (so_numericos (py_str v))
      \<longrightarrow> converter_para_numero v = Str (replace_char CHR '','' CHR ''.'' (so_numericos (py_str v))))"
  using converter_virgula_ponto [of v] converter_virgula [of v] by blast

text \<open>The amended C4 at \<^verbatim>\<open>'R$ 1.234,56'\<close> and \<^verbatim>\<open>'1234,56'\<close>.\<close>

theorem converter_virgula_amended_witness:
  "\<not> isna (Str ''R$ 1.234,56'') \<and> converter_para_numero (Str ''R$ 1.234,56'') = Str ''1234.56''
   \<and> \<not> isna (Str ''1234,56'') \<and> converter_para_numero (Str ''1234,56'') = Str ''1234.56''"
  using converter_virgula_amended [of "Str ''R$ 1.234,56''"]
    converter_virgula_amended [of "Str ''1234,56''"]
  by (simp add: so_numericos_def re_digit_def spec_virgula_decimal_def remove_char_def
      replace_char_def)

text \<open>
  C4 as the specification states it fails when there are two commas: of
  \<^verbatim>\<open>'1,2.3,4'\<close> the code keeps the period left of the last comma and drops
  what follows the second comma.
\<close>

theorem converter_virgula_counterexample:
  "converter_para_numero (Str ''1,2.3,4'') = Str ''1.2.3''
   \<and> spec_virgula_decimal (so_numericos ''1,2.3,4'') = ''1,23.4''
   \<and> converter_para_numero (Str ''1,2.3,4'') \<noteq> Str (spec_virgula_decimal (so_numericos ''1,2.3,4''))"
  by (simp add: converter_para_numero_def strip_def py_isspace_def valores_invalidos_def
      so_numericos_def re_digit_def remove_char_def spec_virgula_decimal_def)



section \<open>The claim about the header locator\<close>



section \<open>The claim about the timestamp labels\<close>

text \<open>
  Claim C1 does not hold of the code. \<^verbatim>\<open>re.match\<close> looks for its pattern at the
  start of the label only, so a label that is a full timestamp already matches
  \<^verbatim>\<open>\d{4}-\d{2}\<close>, the first test of the loop; the branch that parses and renames
  is never reached, and \<^verbatim>\<open>normalizar_colunas_data\<close> returns every frame as it got
  it. A column labelled \<^verbatim>\<open>2013-01-01 00:00:00\<close> keeps that label, the reshaper
  takes it for a period column, and its month cannot be parsed: the observation gets
  NaT.
\<close>

theorem normalizar_colunas_data_keeps_timestamp:
  "normalizar_colunas_data df = df
   \<and> columns (normalizar_colunas_data exemplo_timestamp)
       = [Str ''GRUPO_ECONOMICO'', Str ''VARIAVEL'', Str ''2013-01-01 00:00:00'']
   \<and> colunas_data (normalizar_colunas_data exemplo_timestamp) = [Str ''2013-01-01 00:00:00'']
   \<and> to_datetime_ano_mes (Str ''2013-01-01 00:00:00'') = NaN
   \<and> transformar_para_formato_longo (normalizar_colunas_data exemplo_timestamp) ''SCM''
       = \<lparr>columns = [Str ''GRUPO_ECONOMICO'', Str ''VARIAVEL'', Str ''REFERENCIA_MES'',
                     Str ''VALOR'', Str ''SERVICO''],
          rows = [[Str ''OI'', Str ''Taxa'', NaN, Str ''95.5'', Str ''SCM'']]\<rparr>"
proof -
  have 1: "columns exemplo_timestamp
       = [Str ''GRUPO_ECONOMICO'', Str ''VARIAVEL'', Str ''2013-01-01 00:00:00'']"
    by (simp add: exemplo_timestamp_def)
  have 2: "colunas_data exemplo_timestamp = [Str ''2013-01-01 00:00:00'']"
    by code_simp
  have 3: "to_datetime_ano_mes (Str ''2013-01-01 00:00:00'') = NaN"
    by code_simp
  have 4: "transformar_para_formato_longo exemplo_timestamp ''SCM''
       = \<lparr>columns = [Str ''GRUPO_ECONOMICO'', Str ''VARIAVEL'', Str ''REFERENCIA_MES'',
                     Str ''VALOR'', Str ''SERVICO''],
          rows = [[Str ''OI'', Str ''Taxa'', NaN, Str ''95.5'', Str ''SCM'']]\<rparr>"
    by code_simp
  show ?thesis using 1 2 3 4 by (simp add: normalizar_colunas_data_id)
qed

section \<open>The claim about the number of observation rows\<close>




section \<open>The claim about the consolidated frame\<close>

text \<open>
  C7 as the specification states it fails when no resource was reshaped: the columns
  \<^verbatim>\<open>mes_referencia\<close> and \<^verbatim>\<open>valor\<close> do not exist then, and the code puts in
  front only those of the six preferred columns that exist.
\<close>

theorem consolidado_counterexample:
  "criar_dataframe_consolidado [transformar_para_formato_longo exemplo_smp ''SMP'']
     = Inr \<lparr>columns = [Str ''id'', Str ''grupo_economico'', Str ''servico'', Str ''tipo_servico'',
                       Str ''TOTAL''],
            rows = [[IntV 1, Str ''TIM'', Str ''Taxa'', Str ''SMP'', Str ''7'']]\<rparr>
   \<and> take 6 [Str ''id'', Str ''grupo_economico'', Str ''servico'', Str ''tipo_servico'', Str ''TOTAL'']
       \<noteq> colunas_desejadas"
  by code_simp

text \<open>
  Claim C7, amended. Let the consolidation return a frame, and let the labels after
  the renaming be distinct. Then the first column is \<^verbatim>\<open>id\<close>; after it come those
  of \<^verbatim>\<open>grupo_economico\<close>, \<^verbatim>\<open>servico\<close>, \<^verbatim>\<open>mes_referencia\<close>, \<^verbatim>\<open>valor\<close>,
  \<^verbatim>\<open>tipo_servico\<close> that exist, in this order, and then the other columns in the
  order they had. The \<^verbatim>\<open>id\<close> cells are 1, 2, ... up to the number of rows left by
  the removal of duplicates. Row number k of the result is row number k of the cleaned
  frame with its id in front, read in the new column order; the cleaned frame is, row
  by row, the concatenation without its duplicates, with \<^verbatim>\<open>limpar_valor_final\<close>
  applied under VALOR; and the concatenation lists the rows of the resources in the
  order of the resources, each resource's rows in their own order.
\<close>

theorem consolidado_id_linhas_colunas:
  assumes final: "criar_dataframe_consolidado dataframes = Inr df_final"
    and conc: "pd_concat dataframes = Inr df_concat"
    and limp: "limpeza_final (drop_duplicates df_concat) = Inr df_limpo"
    and dist: "distinct (columns (renomear df_limpo))"
  shows
    "columns df_final =
       Str ''id'' # filter (\<lambda>c. c \<in> set (columns (renomear df_limpo))) (tl colunas_desejadas)
         @ filter (\<lambda>c. c \<notin> set colunas_desejadas) (columns (renomear df_limpo))
     \<and> map (\<lambda>linha. celula linha 0) (rows df_final)
         = map (\<lambda>k. IntV (int k)) [1..<Suc (length (unicos (rows df_concat)))]
     \<and> length (rows df_final) = length (unicos (rows df_concat))
     \<and> rows df_final =
         map (\<lambda>(k, linha). map (valor_em (Str ''id'' # columns (renomear df_limpo)) (IntV (int k) # linha))
                               (columns df_final))
             (zip [1..<Suc (length (rows df_limpo))] (rows df_limpo))
     \<and> list_all2 (\<lambda>antes depois. \<forall>j<length (columns df_concat).
            if columns df_concat ! j = Str ''VALOR''
            then limpar_valor_final (celula antes j) = Inr (celula depois j)
            else celula depois j = celula antes j)
          (unicos (rows df_concat)) (rows df_limpo)
     \<and> rows df_concat =
         concat (map (\<lambda>df. map (\<lambda>linha. map (valor_em (columns df) linha) (columns df_concat)) (rows df))
                     dataframes)"
proof -
  let ?r = "renomear df_limpo"
  let ?nomes = "Str ''id'' # filter (\<lambda>c. c \<in> set (columns ?r)) (tl colunas_desejadas)
                  @ filter (\<lambda>c. c \<notin> set colunas_desejadas) (columns ?r)"
  have cl: "columns df_limpo = columns df_concat"
    using limpeza_final_columns [OF limp] by (simp add: drop_duplicates_def)
  have dl: "distinct (columns df_limpo)" using dist by (rule renomear_distinct)
  then have dc: "distinct (columns df_concat)" using cl by simp
  obtain fi where fi: "inserir_id ?r = Inr fi" and t: "df_final = reordenar fi"
    using final conc limp
    by (auto simp: criar_dataframe_consolidado_def split: if_splits sum.splits)
  have nid: "Str ''id'' \<notin> set (columns ?r)"
    and fi_eq: "fi = \<lparr>columns = Str ''id'' # columns ?r,
           rows = map (\<lambda>(k, linha). IntV (int k) # linha_completa (columns ?r) linha)
                      (zip [1..<Suc (length (rows ?r))] (rows ?r))\<rparr>"
    using inserir_id_Inr [OF fi] by simp_all
  have tf: "df_final = \<lparr>columns = ?nomes,
      rows = map (\<lambda>(k, linha). map (valor_em (Str ''id'' # columns ?r) (IntV (int k) # linha)) ?nomes)
                 (zip [1..<Suc (length (rows ?r))] (rows ?r))\<rparr>"
    using reordenar_inserido [OF dist nid] t fi_eq by simp
  have rr: "rows ?r = rows df_limpo" by (rule renomear_rows)
  have la: "list_all2 (\<lambda>antes depois. \<forall>j<length (columns df_concat).
            if columns df_concat ! j = Str ''VALOR''
            then limpar_valor_final (celula antes j) = Inr (celula depois j)
            else celula depois j = celula antes j)
          (unicos (rows df_concat)) (rows df_limpo)"
    using limpeza_final_rows [OF limp] dc by (simp add: drop_duplicates_def)
  then have len: "length (rows df_limpo) = length (unicos (rows df_concat))"
    by (simp add: list_all2_lengthD)
  have c1: "columns df_final = ?nomes" using tf by simp
  have c4: "rows df_final =
         map (\<lambda>(k, linha). map (valor_em (Str ''id'' # columns ?r) (IntV (int k) # linha))
                               (columns df_final))
             (zip [1..<Suc (length (rows df_limpo))] (rows df_limpo))"
    using tf rr by simp
  have c3: "length (rows df_final) = length (unicos (rows df_concat))"
  proof -
    have "length (rows df_final) = length (zip [1..<Suc (length (rows df_limpo))] (rows df_limpo))"
      by (subst c4) (simp del: upt_Suc)
    then show ?thesis using len by (simp del: upt_Suc)
  qed
  have "map (\<lambda>linha. celula linha 0) (rows df_final)
        = map (\<lambda>(k, linha). IntV (int k)) (zip [1..<Suc (length (rows df_limpo))] (rows df_limpo))"
    by (subst c4) (simp add: c1 comp_def case_prod_beta valor_em_def celula_def del: upt_Suc)
  also have "\<dots> = map (\<lambda>k. IntV (int k)) [1..<Suc (length (rows df_limpo))]"
    by (rule map_zip_fst_upt) (simp del: upt_Suc)
  finally have c2: "map (\<lambda>linha. celula linha 0) (rows df_final)
         = map (\<lambda>k. IntV (int k)) [1..<Suc (length (unicos (rows df_concat)))]"
    using len by (simp del: upt_Suc)
  have c6: "rows df_concat =
         concat (map (\<lambda>df. map (\<lambda>linha. map (valor_em (columns df) linha) (columns df_concat)) (rows df))
                     dataframes)"
    using conc dc by (rule pd_concat_rows)
  show ?thesis using c1 c2 c3 c4 la c6 by blast
qed

text \<open>The amended C7 on two resources, one reshaped and one left wide, with a
  duplicated row.\<close>

theorem consolidado_id_linhas_colunas_witness:
  "criar_dataframe_consolidado exemplo_dataframes = Inr exemplo_final
   \<and> pd_concat exemplo_dataframes = Inr exemplo_concat
   \<and> limpeza_final (drop_duplicates exemplo_concat) = Inr exemplo_limpo
   \<and> distinct (columns (renomear exemplo_limpo))
   \<and> map (\<lambda>linha. celula linha 0) (rows exemplo_final)
       = map (\<lambda>k. IntV (int k)) [1..<Suc (length (unicos (rows exemplo_concat)))]
   \<and> length (rows exemplo_final) = length (unicos (rows exemplo_concat))"
proof -
  have h1: "criar_dataframe_consolidado exemplo_dataframes = Inr exemplo_final" by code_simp
  have h2: "pd_concat exemplo_dataframes = Inr exemplo_concat" by code_simp
  have h3: "limpeza_final (drop_duplicates exemplo_concat) = Inr exemplo_limpo" by code_simp
  have h4: "distinct (columns (renomear exemplo_limpo))" by code_simp
  note t = consolidado_id_linhas_colunas [OF h1 h2 h3 h4]
  from t have a: "map (\<lambda>linha. celula linha 0) (rows exemplo_final)
       = map (\<lambda>k. IntV (int k)) [1..<Suc (length (unicos (rows exemplo_concat)))]"
    by (rule conjunct2 [THEN conjunct1])
  from t have b: "length (rows exemplo_final) = length (unicos (rows exemplo_concat))"
    by (rule conjunct2 [THEN conjunct2, THEN conjunct1])
  show ?thesis using h1 h2 h3 h4 a b by blast
qed

section \<open>The claims about the loader\<close>




text \<open>
  Claim C10. When the load succeeds, the table holds the rows made of the preprocessed
  frame, in which the column \<^verbatim>\<open>valor\<close> is still called \<^verbatim>\<open>valor\<close>; no cell of
  that column is the empty text; and where the frame read from the file had the empty
  text there, \<^verbatim>\<open>preprocess_dataframe\<close> has put the missing value and the row holds
  the SQL null.
\<close>

theorem valor_vazio_vira_null:
  assumes "create_table_from_csv srv to_datetime connected (Inr df) table_name db = (True, db')"
    and "i < length (col_names df)" and "col_names df ! i = ''valor''"
    and "k < length (records df)" and "i < length (records df ! k)"
  shows "db' table_name =
           Some \<lparr>tcols = map (\<lambda>(col, dt). (col, get_column_type_for_your_table col dt))
                              (zip (col_names (preprocess_dataframe to_datetime df))
                                   (col_dtypes (preprocess_dataframe to_datetime df))),
                 trows = data_tuples (preprocess_dataframe to_datetime df)\<rparr>
         \<and> col_names (preprocess_dataframe to_datetime df) ! i = ''valor''
         \<and> data_tuples (preprocess_dataframe to_datetime df) ! k ! i \<noteq> SqlText []
         \<and> (records df ! k ! i = CText [] \<longrightarrow>
              records (preprocess_dataframe to_datetime df) ! k ! i = CNull
              \<and> data_tuples (preprocess_dataframe to_datetime df) ! k ! i = SqlNull)"
proof -
  let ?p = "preprocess_dataframe to_datetime df"
  note pv = preprocess_valor [OF assms(2-5), of to_datetime]
  have lr: "length (records ?p) = length (records df)"
    by (simp add: preprocess_dataframe_def Let_def map_column_def)
  have li: "i < length (records ?p ! k)"
    using assms(2-5) by (simp add: preprocess_dataframe_def Let_def map_column_def)
  have dt: "data_tuples ?p ! k ! i = to_sql_value (records ?p ! k ! i)"
    using lr li assms(4) by (simp add: data_tuples_def)
  have ne: "records ?p ! k ! i \<noteq> CText []" using pv(1) by simp
  show ?thesis
    using create_table_from_csv_success [OF assms(1)] pv dt ne
    by (simp add: to_sql_value_empty)
qed

text \<open>C10 on a file whose first row has the empty text under \<^verbatim>\<open>valor\<close>.\<close>

theorem valor_vazio_vira_null_witness:
  "fst (create_table_from_csv pk_server (\<lambda>x. x) True (Inr exemplo_csv) ''t'' Map.empty)
   \<and> records exemplo_csv ! 0 ! 1 = CText []
   \<and> snd (create_table_from_csv pk_server (\<lambda>x. x) True (Inr exemplo_csv) ''t'' Map.empty) ''t''
       = Some \<lparr>tcols = [(''id'', ''INTEGER PRIMARY KEY''), (''valor'', ''DOUBLE PRECISION'')],
               trows = [[SqlInt 1, SqlNull], [SqlInt 2, SqlText ''2.5'']]\<rparr>
   \<and> data_tuples (preprocess_dataframe (\<lambda>x. x) exemplo_csv) ! 0 ! 1 = SqlNull"
proof -
  let ?r = "create_table_from_csv pk_server (\<lambda>x. x) True (Inr exemplo_csv) ''t'' Map.empty"
  have f: "fst ?r" by code_simp
  then have h1: "?r = (True, snd ?r)" by (simp add: prod_eq_iff)
  have h2: "1 < length (col_names exemplo_csv)" by (simp add: exemplo_csv_def)
  have h3: "col_names exemplo_csv ! 1 = ''valor''" by (simp add: exemplo_csv_def)
  have h4: "0 < length (records exemplo_csv)" by (simp add: exemplo_csv_def)
  have h5: "1 < length (records exemplo_csv ! 0)" by (simp add: exemplo_csv_def)
  have e: "records exemplo_csv ! 0 ! 1 = CText []" by (simp add: exemplo_csv_def)
  have t: "snd ?r ''t''
       = Some \<lparr>tcols = [(''id'', ''INTEGER PRIMARY KEY''), (''valor'', ''DOUBLE PRECISION'')],
               trows = [[SqlInt 1, SqlNull], [SqlInt 2, SqlText ''2.5'']]\<rparr>"
    by code_simp
  have "data_tuples (preprocess_dataframe (\<lambda>x. x) exemplo_csv) ! 0 ! 1 = SqlNull"
    using e valor_vazio_vira_null [OF h1 h2 h3 h4 h5] by blast
  then show ?thesis using f e t by blast
qed

end
